theory Spec2Isabelle
  imports Main
begin

section \<open>JavaScript primitives used by the backend\<close>

text \<open>
  Strings are byte strings (UTF-8). The keyword tests of the backend only look for ASCII
  words, so \<open>toLowerCase\<close> is modelled on the ASCII letters and leaves every other byte
  unchanged; no non-ASCII code point lower-cases to a text that contains one of the ASCII
  keywords searched for below.
\<close>

definition lowerChar :: "char \<Rightarrow> char" where
  "lowerChar c =
     (if 65 \<le> (of_char c :: nat) \<and> (of_char c :: nat) \<le> 90
      then char_of ((of_char c :: nat) + 32) else c)"

definition toLowerCase :: "string \<Rightarrow> string" where
  "toLowerCase s = map lowerChar s"

fun startsWith :: "string \<Rightarrow> string \<Rightarrow> bool" where
  "startsWith s [] = True"
| "startsWith [] (p # ps) = False"
| "startsWith (c # cs) (p # ps) = (c = p \<and> startsWith cs ps)"

text \<open>\<open>s.includes(sub)\<close> of JavaScript: \<open>sub\<close> occurs in \<open>s\<close> as a contiguous run.\<close>

fun strIncludes :: "string \<Rightarrow> string \<Rightarrow> bool" where
  "strIncludes [] sub = (sub = [])"
| "strIncludes (c # cs) sub = (startsWith (c # cs) sub \<or> strIncludes cs sub)"

text \<open>Decimal rendering of an integer inside a template literal.\<close>

fun digitsOf :: "nat \<Rightarrow> string" where
  "digitsOf n =
     (if n < 10 then [char_of (48 + n)]
      else digitsOf (n div 10) @ [char_of (48 + n mod 10)])"

declare digitsOf.simps [simp del]

definition numToString :: "int \<Rightarrow> string" where
  "numToString n = (if n < 0 then CHR ''-'' # digitsOf (nat (- n)) else digitsOf (nat n))"

text \<open>
  A relational comparison against \<open>undefined\<close> is false in JavaScript; a missing
  \<open>statusCode\<close> is \<open>None\<close>.
\<close>

definition numGe :: "int option \<Rightarrow> int \<Rightarrow> bool" where
  "numGe x k = (case x of None \<Rightarrow> False | Some v \<Rightarrow> k \<le> v)"

definition numLt :: "int option \<Rightarrow> int \<Rightarrow> bool" where
  "numLt x k = (case x of None \<Rightarrow> False | Some v \<Rightarrow> v < k)"


section \<open>Service classifier: \<open>detectServiceType\<close>\<close>

record ServiceDescriptor =
  sd_name :: string
  sd_type :: string
  sd_description :: string

definition mkDescriptor :: "string \<Rightarrow> string \<Rightarrow> string \<Rightarrow> ServiceDescriptor" where
  "mkDescriptor n t d = \<lparr>sd_name = n, sd_type = t, sd_description = d\<rparr>"

definition WELL_KNOWN_PORTS_table :: "(int \<times> ServiceDescriptor) list" where
  "WELL_KNOWN_PORTS_table =
    [(22, mkDescriptor ''SSH'' ''system'' ''Secure Shell (SSH)''),
     (23, mkDescriptor ''Telnet'' ''system'' ''Telnet protocol''),
     (25, mkDescriptor ''SMTP'' ''system'' ''Simple Mail Transfer Protocol (SMTP)''),
     (53, mkDescriptor ''DNS'' ''system'' ''Domain Name System (DNS)''),
     (80, mkDescriptor ''HTTP'' ''web'' ''Hypertext Transfer Protocol (HTTP)''),
     (110, mkDescriptor ''POP3'' ''system'' ''Post Office Protocol version 3 (POP3)''),
     (143, mkDescriptor ''IMAP'' ''system'' ''Internet Message Access Protocol (IMAP)''),
     (443, mkDescriptor ''HTTPS'' ''web'' ''HTTP Secure (HTTPS)''),
     (993, mkDescriptor ''IMAPS'' ''system'' ''IMAP over SSL''),
     (995, mkDescriptor ''POP3S'' ''system'' ''POP3 over SSL''),
     (1433, mkDescriptor ''SQL Server'' ''database'' ''Microsoft SQL Server database''),
     (3306, mkDescriptor ''MySQL'' ''database'' ''MySQL database''),
     (5432, mkDescriptor ''PostgreSQL'' ''database'' ''PostgreSQL database''),
     (6379, mkDescriptor ''Redis'' ''database'' ''Redis in-memory database''),
     (8080, mkDescriptor ''HTTP Alt'' ''web'' ''HTTP alternative port''),
     (8443, mkDescriptor ''HTTPS Alt'' ''web'' ''HTTPS alternative port''),
     (9000, mkDescriptor ''Management'' ''web'' ''Common management interface port'')]"

definition WELL_KNOWN_PORTS :: "int \<Rightarrow> ServiceDescriptor option" where
  "WELL_KNOWN_PORTS p = map_of WELL_KNOWN_PORTS_table p"

text \<open>
  \<open>detectServiceType(port, owner)\<close>. The port is the numeric argument; for an integer in
  the port range \<open>parseInt(port, 10)\<close> is that integer. The owner is \<open>None\<close> when it is
  absent or not a string; an empty owner is falsy and skips the keyword tests.
\<close>

definition detectServiceType :: "int \<Rightarrow> string option \<Rightarrow> ServiceDescriptor" where
  "detectServiceType portNum owner =
    (case WELL_KNOWN_PORTS portNum of
       Some d \<Rightarrow> d
     | None \<Rightarrow>
        (let ownerLower = (case owner of None \<Rightarrow> None
                           | Some s \<Rightarrow> if s = [] then None else Some (toLowerCase s));
             has = (\<lambda>w. case ownerLower of None \<Rightarrow> False | Some l \<Rightarrow> strIncludes l w)
         in
         if has ''ssh'' \<or> has ''sshd'' then
           mkDescriptor ''SSH'' ''system'' ''SSH service''
         else if has ''nginx'' \<or> has ''apache'' \<or> has ''httpd'' then
           mkDescriptor ''Web Server'' ''web'' ''Web server''
         else if has ''mysql'' \<or> has ''postgres'' \<or> has ''redis'' then
           mkDescriptor ''Database'' ''database'' ''Database service''
         else if portNum = 80 \<or> portNum = 443 \<or> portNum = 8080 \<or> portNum = 8443 \<or>
                 (portNum \<ge> 3000 \<and> portNum \<le> 3999) \<or>
                 (portNum \<ge> 4000 \<and> portNum \<le> 4999) \<or>
                 (portNum \<ge> 8000 \<and> portNum \<le> 8999) \<or>
                 (portNum \<ge> 9000 \<and> portNum \<le> 9999) then
           mkDescriptor ''Web Service'' ''web'' ''Web service''
         else if portNum < 1024 then
           mkDescriptor ''System Service'' ''system'' ''System service''
         else
           mkDescriptor ''Service'' ''service'' ''Application service''))"

text \<open>The owner keyword test as the specification words it: a case-insensitive substring
  match of the owner against a group of keywords.\<close>

definition ownerMatches :: "string option \<Rightarrow> string list \<Rightarrow> bool" where
  "ownerMatches owner ws =
     (case owner of None \<Rightarrow> False | Some s \<Rightarrow> \<exists>w \<in> set ws. strIncludes (toLowerCase s) w)"

definition wellKnownPortNumbers :: "int set" where
  "wellKnownPortNumbers =
     {22, 23, 25, 53, 80, 110, 143, 443, 993, 995, 1433, 3306, 5432, 6379, 8080, 8443, 9000}"

definition webRangePort :: "int \<Rightarrow> bool" where
  "webRangePort p =
     (p \<in> {80, 443, 8080, 8443} \<or> p \<in> {3000..3999} \<union> {4000..4999} \<union> {8000..8999} \<union> {9000..9999})"


section \<open>Status resolver: \<open>determineServiceStatus\<close>\<close>

record ProbeResult =
  pr_reachable :: bool
  pr_statusCode :: "int option"
  pr_protocol :: "string option"
  pr_method :: "string option"
  pr_responseTime :: "nat option"
  pr_isSPA :: "bool option"
  pr_error :: "string option"

record StatusResult =
  sr_status :: string
  sr_color :: string
  sr_title :: string
  sr_description :: string
  sr_protocol :: "string option"

definition mkStatus ::
  "string \<Rightarrow> string \<Rightarrow> string \<Rightarrow> string \<Rightarrow> string option \<Rightarrow> StatusResult" where
  "mkStatus s c t d p =
     \<lparr>sr_status = s, sr_color = c, sr_title = t, sr_description = d, sr_protocol = p\<rparr>"

text \<open>The selection of the working response: an HTTPS 2xx, else an HTTP 2xx, else a
  reachable HTTPS response, else a reachable HTTP response, else none.\<close>

definition workingResponse :: "ProbeResult \<Rightarrow> ProbeResult \<Rightarrow> ProbeResult option" where
  "workingResponse httpsResponse httpResponse =
    (if pr_reachable httpsResponse \<and> numGe (pr_statusCode httpsResponse) 200
          \<and> numLt (pr_statusCode httpsResponse) 300 then Some httpsResponse
     else if pr_reachable httpResponse \<and> numGe (pr_statusCode httpResponse) 200
          \<and> numLt (pr_statusCode httpResponse) 300 then Some httpResponse
     else if pr_reachable httpsResponse then Some httpsResponse
     else if pr_reachable httpResponse then Some httpResponse
     else None)"

definition statusText :: "int option \<Rightarrow> string" where
  "statusText c = (case c of None \<Rightarrow> ''undefined'' | Some v \<Rightarrow> numToString v)"

definition webStatus :: "ServiceDescriptor \<Rightarrow> ProbeResult \<Rightarrow> StatusResult option" where
  "webStatus serviceInfo w =
    (let statusCode = pr_statusCode w; n = sd_name serviceInfo;
         d = sd_description serviceInfo; p = pr_protocol w in
     if numGe statusCode 200 \<and> numLt statusCode 400 then
       Some (mkStatus ''accessible'' ''green'' (n @ '' - Web service accessible'') d p)
     else if statusCode = Some 401 then
       Some (mkStatus ''accessible'' ''green'' (n @ '' - Web accessible (auth)'') d p)
     else if statusCode = Some 403 then
       Some (mkStatus ''listening'' ''yellow'' (n @ '' - Listening (Forbidden)'') d p)
     else if statusCode = Some 405 \<and> pr_method w = Some ''HEAD'' then
       Some (mkStatus ''accessible'' ''green'' (n @ '' - Web accessible (GET)'') d p)
     else if statusCode = Some 404 then
       (if pr_isSPA w = Some True then
          Some (mkStatus ''accessible'' ''green'' (n @ '' - Web accessible'') d p)
        else
          Some (mkStatus ''listening'' ''yellow'' (n @ '' - Listening (no web UI)'') d p))
     else if numGe statusCode 400 \<and> numLt statusCode 500 then
       Some (mkStatus ''accessible'' ''green''
               (n @ '' - Web accessible (HTTP '' @ statusText statusCode @ '')'') d p)
     else if numGe statusCode 500 then
       Some (mkStatus ''error'' ''red''
               (n @ '' - HTTP '' @ statusText statusCode @ '' error'') d p)
     else None)"

definition otherStatus :: "ServiceDescriptor \<Rightarrow> ProbeResult \<Rightarrow> StatusResult" where
  "otherStatus serviceInfo w =
    (let statusCode = pr_statusCode w; n = sd_name serviceInfo;
         d = sd_description serviceInfo; p = pr_protocol w in
     if statusCode = Some 401 then
       mkStatus ''accessible'' ''green'' (n @ '' - HTTP accessible (auth)'') d p
     else if statusCode = Some 403 then
       mkStatus ''listening'' ''yellow'' (n @ '' - Listening (Forbidden)'') d p
     else if numLt statusCode 500 then
       mkStatus ''accessible'' ''green'' (n @ '' - HTTP accessible'') d p
     else
       mkStatus ''listening'' ''yellow'' (n @ '' - Service listening (not HTTP)'') d None)"

definition determineServiceStatus ::
  "ServiceDescriptor \<Rightarrow> ProbeResult \<Rightarrow> ProbeResult \<Rightarrow> StatusResult" where
  "determineServiceStatus serviceInfo httpsResponse httpResponse =
    (let serviceType = sd_type serviceInfo; n = sd_name serviceInfo;
         d = sd_description serviceInfo in
     if serviceType = ''system'' then
       mkStatus ''system'' ''gray'' (n @ '' - System service'') d None
     else
       (case workingResponse httpsResponse httpResponse of
          None \<Rightarrow> mkStatus ''unreachable'' ''red'' (n @ '' - Service not reachable'') d None
        | Some w \<Rightarrow>
           (case (if serviceType = ''web'' then webStatus serviceInfo w else None) of
              Some r \<Rightarrow> r
            | None \<Rightarrow>
               if serviceType = ''database'' \<or> serviceType = ''service'' then
                 otherStatus serviceInfo w
               else
                 mkStatus ''listening'' ''yellow'' (n @ '' - Service listening'') d None)))"


section \<open>Port aggregation in \<open>GET /api/ports\<close>\<close>

text \<open>
  A field of a collector's record may be absent (\<open>undefined\<close>), \<open>null\<close> or a value; the
  three are kept apart because \<open>Array.prototype.includes\<close> tells them apart.
\<close>

datatype 'a jsval = Undefined | Null | Val 'a

text \<open>JavaScript truthiness of a string field and of an integer field.\<close>

fun truthyStr :: "string jsval \<Rightarrow> bool" where
  "truthyStr (Val s) = (s \<noteq> [])"
| "truthyStr _ = False"

fun truthyNum :: "int jsval \<Rightarrow> bool" where
  "truthyNum (Val n) = (n \<noteq> 0)"
| "truthyNum _ = False"

text \<open>A field interpolated into a template literal.\<close>

fun strText :: "string jsval \<Rightarrow> string" where
  "strText Undefined = ''undefined''"
| "strText Null = ''null''"
| "strText (Val s) = s"

fun numText :: "int jsval \<Rightarrow> string" where
  "numText Undefined = ''undefined''"
| "numText Null = ''null''"
| "numText (Val n) = numToString n"

record PortObservation =
  ob_host_ip :: "string jsval"
  ob_host_port :: "int jsval"
  ob_protocol :: "string jsval"
  ob_owner :: "string jsval"
  ob_pid :: "int jsval"
  ob_container_id :: "string jsval"
  ob_internal :: bool

text \<open>An accumulator entry: the first observation of the group (\<open>...entry\<close>) with the
  two lists.\<close>

record AggregatedPort = PortObservation +
  ag_owners :: "string jsval list"
  ag_pids :: "int list"

text \<open>The filter \<open>(e) => e.host_port && e.host_ip\<close>.\<close>

definition keepEntry :: "PortObservation \<Rightarrow> bool" where
  "keepEntry e = (truthyNum (ob_host_port e) \<and> truthyStr (ob_host_ip e))"

text \<open>The grouping key \<open>`${entry.host_ip}:${entry.host_port}:${entry.protocol}`\<close>.\<close>

definition aggKey :: "'a PortObservation_scheme \<Rightarrow> string" where
  "aggKey e = strText (ob_host_ip e) @ '':'' @ numText (ob_host_port e) @ '':'' @
              strText (ob_protocol e)"

text \<open>\<open>[entry.pid].filter(Boolean)\<close>.\<close>

definition truthyPid :: "int jsval \<Rightarrow> int list" where
  "truthyPid p = (case p of Val n \<Rightarrow> if n \<noteq> 0 then [n] else [] | _ \<Rightarrow> [])"

definition newEntry :: "PortObservation \<Rightarrow> AggregatedPort" where
  "newEntry entry =
     \<lparr>ob_host_ip = ob_host_ip entry, ob_host_port = ob_host_port entry,
      ob_protocol = ob_protocol entry, ob_owner = ob_owner entry, ob_pid = ob_pid entry,
      ob_container_id = ob_container_id entry, ob_internal = ob_internal entry,
      ag_owners = [ob_owner entry], ag_pids = truthyPid (ob_pid entry)\<rparr>"

definition mergeInto :: "PortObservation \<Rightarrow> AggregatedPort \<Rightarrow> AggregatedPort" where
  "mergeInto entry a =
     (let a1 = (if ob_owner entry \<in> set (ag_owners a) then a
                else a\<lparr>ag_owners := ag_owners a @ [ob_owner entry]\<rparr>)
      in case ob_pid entry of
           Val n \<Rightarrow> if n \<noteq> 0 \<and> n \<notin> set (ag_pids a1)
                    then a1\<lparr>ag_pids := ag_pids a1 @ [n]\<rparr> else a1
         | _ \<Rightarrow> a1)"

text \<open>
  The accumulator object of the \<open>reduce\<close>, as an association list in insertion order. Every
  key holds two colons, so it is neither an array index (which \<open>Object.values\<close> would
  list first) nor a property inherited from \<open>Object.prototype\<close>.
\<close>

type_synonym aggAcc = "(string \<times> AggregatedPort) list"

definition reduceStep :: "aggAcc \<Rightarrow> PortObservation \<Rightarrow> aggAcc" where
  "reduceStep acc entry =
     (let key = aggKey entry in
      case map_of acc key of
        None \<Rightarrow> acc @ [(key, newEntry entry)]
      | Some _ \<Rightarrow> map (\<lambda>(k, a). if k = key then (k, mergeInto entry a) else (k, a)) acc)"

definition normalized :: "PortObservation list \<Rightarrow> aggAcc" where
  "normalized entries = foldl reduceStep [] (filter keepEntry entries)"

text \<open>\<open>owners.join(", ")\<close>: \<open>null\<close> and \<open>undefined\<close> elements render as the empty string.\<close>

fun joinText :: "string jsval \<Rightarrow> string" where
  "joinText (Val s) = s"
| "joinText _ = []"

fun joinOwners :: "string jsval list \<Rightarrow> string" where
  "joinOwners [] = []"
| "joinOwners [x] = joinText x"
| "joinOwners (x # y # ys) = joinText x @ '', '' @ joinOwners (y # ys)"

definition toPayload :: "AggregatedPort \<Rightarrow> AggregatedPort" where
  "toPayload e = e\<lparr>ob_owner := Val (joinOwners (ag_owners e))\<rparr>"

definition aggregate :: "PortObservation list \<Rightarrow> AggregatedPort list" where
  "aggregate entries = map (\<lambda>(k, e). toPayload e) (normalized entries)"

text \<open>
  The reading of the specification that the aggregation is compared with: the members of
  a group are the kept observations with the entry's key, and a list "accumulated in order
  of first appearance, deduplicated" keeps the first occurrence of each element.
\<close>

definition firstSeen :: "'a list \<Rightarrow> 'a list" where
  "firstSeen xs = rev (remdups (rev xs))"

definition groupOf :: "PortObservation list \<Rightarrow> string \<Rightarrow> PortObservation list" where
  "groupOf entries key = filter (\<lambda>e. aggKey e = key) (filter keepEntry entries)"

definition truthyPids :: "PortObservation list \<Rightarrow> int list" where
  "truthyPids es = concat (map (\<lambda>e. truthyPid (ob_pid e)) es)"

text \<open>The pids of a group that are present, that is neither \<open>null\<close> nor \<open>undefined\<close>.\<close>

definition nonNullPids :: "PortObservation list \<Rightarrow> int list" where
  "nonNullPids es = concat (map (\<lambda>e. case ob_pid e of Val n \<Rightarrow> [n] | _ \<Rightarrow> []) es)"


section \<open>Annotation store and response cache\<close>

subsection \<open>\<open>String.prototype.trim\<close>\<close>

text \<open>
  White space of ECMAScript on UTF-8 bytes: the ASCII controls TAB, LF, VT, FF, CR and the
  space, U+00A0, U+1680, U+2000 to U+200A, U+2028, U+2029, U+202F, U+205F, U+3000 and
  U+FEFF. \<open>wsLead\<close> is the number of bytes of the white-space character a text starts with
  (0 when it starts with none), \<open>wsTrail\<close> the same for the reversed text.
\<close>

definition asciiSpace :: "char \<Rightarrow> bool" where
  "asciiSpace c = ((of_char c :: nat) \<in> {9, 10, 11, 12, 13, 32})"

definition byte :: "char \<Rightarrow> nat" where
  "byte c = of_char c"

fun wsLead :: "string \<Rightarrow> nat" where
  "wsLead [] = 0"
| "wsLead [a] = (if asciiSpace a then 1 else 0)"
| "wsLead [a, b] = (if asciiSpace a then 1 else if byte a = 194 \<and> byte b = 160 then 2 else 0)"
| "wsLead (a # b # c # _) =
     (if asciiSpace a then 1
      else if byte a = 194 \<and> byte b = 160 then 2
      else if byte a = 225 \<and> byte b = 154 \<and> byte c = 128 then 3
      else if byte a = 226 \<and> byte b = 128 \<and>
              (128 \<le> byte c \<and> byte c \<le> 138 \<or> byte c = 168 \<or> byte c = 169 \<or> byte c = 175)
        then 3
      else if byte a = 226 \<and> byte b = 129 \<and> byte c = 159 then 3
      else if byte a = 227 \<and> byte b = 128 \<and> byte c = 128 then 3
      else if byte a = 239 \<and> byte b = 187 \<and> byte c = 191 then 3
      else 0)"

definition wsTrail :: "string \<Rightarrow> nat" where
  "wsTrail r = (case r of
       [] \<Rightarrow> 0
     | [a] \<Rightarrow> wsLead [a]
     | [a, b] \<Rightarrow> (if asciiSpace a then 1 else if wsLead [b, a] = 2 then 2 else 0)
     | a # b # c # _ \<Rightarrow>
         (if asciiSpace a then 1
          else if wsLead [b, a] = 2 then 2
          else if wsLead [c, b, a] = 3 then 3 else 0))"

function trimStart :: "string \<Rightarrow> string" where
  "trimStart s = (if wsLead s = 0 then s else trimStart (drop (wsLead s) s))"
  by pat_completeness auto
termination
proof (relation "measure length")
  show "wf (measure length)" by simp
next
  fix s :: string
  assume "wsLead s \<noteq> 0"
  then have "s \<noteq> []" by auto
  with \<open>wsLead s \<noteq> 0\<close> show "(drop (wsLead s) s, s) \<in> measure length" by simp
qed

function trimEndRev :: "string \<Rightarrow> string" where
  "trimEndRev r = (if wsTrail r = 0 then r else trimEndRev (drop (wsTrail r) r))"
  by pat_completeness auto
termination
proof (relation "measure length")
  show "wf (measure length)" by simp
next
  fix r :: string
  assume "wsTrail r \<noteq> 0"
  then have "r \<noteq> []" by (auto simp: wsTrail_def)
  with \<open>wsTrail r \<noteq> 0\<close> show "(drop (wsTrail r) r, r) \<in> measure length" by simp
qed

declare trimStart.simps [simp del]
declare trimEndRev.simps [simp del]

definition trim :: "string \<Rightarrow> string" where
  "trim s = rev (trimEndRev (rev (trimStart s)))"

subsection \<open>Tables\<close>

text \<open>
  The composite key shared by the three annotation tables. \<open>container_id\<close> is a nullable
  column; \<open>internal\<close> is stored as 0 or 1.
\<close>

record PortIdentity =
  server_id :: string
  host_ip :: string
  host_port :: int
  protocol :: string
  container_id :: "string option"
  internal :: bool

record NoteRow = PortIdentity +
  note_text :: string
  note_created_at :: nat
  note_updated_at :: "nat option"

record IgnoreRow = PortIdentity +
  ignore_created_at :: nat

record CustomNameRow = PortIdentity +
  custom_name :: string
  original_name :: "string option"
  cn_created_at :: nat
  cn_updated_at :: nat

record Database =
  servers :: "string list"
  notes_tbl :: "NoteRow list"
  ignores :: "IgnoreRow list"
  custom_service_names :: "CustomNameRow list"

datatype DbError = ForeignKeyFailed | UniqueFailed | NotNullFailed

fun dbErrorMessage :: "DbError \<Rightarrow> string" where
  "dbErrorMessage ForeignKeyFailed = ''FOREIGN KEY constraint failed''"
| "dbErrorMessage UniqueFailed = ''UNIQUE constraint failed''"
| "dbErrorMessage NotNullFailed = ''NOT NULL constraint failed''"

text \<open>\<open>container_id || null\<close> and \<open>original_name || null\<close>.\<close>

definition orNull :: "string option \<Rightarrow> string option" where
  "orNull x = (case x of None \<Rightarrow> None | Some s \<Rightarrow> if s = [] then None else Some s)"

text \<open>
  The condition shared by the statements of the handlers:
  \<open>server_id = ? AND host_ip = ? AND host_port = ? AND protocol = ? AND
  (container_id = ? OR (container_id IS NULL AND ? IS NULL)) AND internal = ?\<close>.
\<close>

definition whereKey ::
  "string \<Rightarrow> string \<Rightarrow> int \<Rightarrow> string \<Rightarrow> string option \<Rightarrow> bool \<Rightarrow> 'a PortIdentity_scheme \<Rightarrow> bool" where
  "whereKey sid ip port proto cid intl r =
     (server_id r = sid \<and> host_ip r = ip \<and> host_port r = port \<and> protocol r = proto \<and>
      container_id r = cid \<and> internal r = intl)"

text \<open>
  The constraints of an \<open>INSERT\<close>: the primary key (rows whose \<open>container_id\<close> is NULL
  never collide, NULLs being distinct in SQLite) and the foreign key to \<open>servers\<close>.
\<close>

definition insertRow ::
  "string list \<Rightarrow> 'a PortIdentity_scheme \<Rightarrow> 'a PortIdentity_scheme list
     \<Rightarrow> DbError + 'a PortIdentity_scheme list" where
  "insertRow srv r rows =
     (if container_id r \<noteq> None \<and>
         (\<exists>x \<in> set rows. whereKey (server_id r) (host_ip r) (host_port r) (protocol r)
                             (container_id r) (internal r) x)
      then Inl UniqueFailed
      else if server_id r \<notin> set srv then Inl ForeignKeyFailed
      else Inr (rows @ [r]))"

definition deleteWhere :: "('a \<Rightarrow> bool) \<Rightarrow> 'a list \<Rightarrow> 'a list" where
  "deleteWhere P rows = filter (\<lambda>r. \<not> P r) rows"

definition changes :: "('a \<Rightarrow> bool) \<Rightarrow> 'a list \<Rightarrow> nat" where
  "changes P rows = length (filter P rows)"

definition updateWhere :: "('a \<Rightarrow> bool) \<Rightarrow> ('a \<Rightarrow> 'a) \<Rightarrow> 'a list \<Rightarrow> 'a list" where
  "updateWhere P f rows = map (\<lambda>r. if P r then f r else r) rows"

subsection \<open>Response cache\<close>

text \<open>
  Modelled from the spec: the class \<open>SimpleTTLCache\<close> of \<open>utils/cache\<close> is not among the
  sources. \<open>get(key)\<close>, \<open>set(key, value, ttlMs)\<close>, \<open>delete(key)\<close>; an entry expires by the
  time elapsed since \<open>set\<close>, checked lazily on \<open>get\<close>. An entry holds the value and the
  time at which it expires.
\<close>

type_synonym 'v TTLCache = "(string \<times> 'v \<times> nat) list"

definition cacheGet :: "'v TTLCache \<Rightarrow> string \<Rightarrow> nat \<Rightarrow> 'v option" where
  "cacheGet c key now =
     (case map_of c key of
        None \<Rightarrow> None
      | Some (v, expiresAt) \<Rightarrow> if now < expiresAt then Some v else None)"

definition cacheDelete :: "'v TTLCache \<Rightarrow> string \<Rightarrow> 'v TTLCache" where
  "cacheDelete c key = filter (\<lambda>e. fst e \<noteq> key) c"

definition cacheSet :: "'v TTLCache \<Rightarrow> string \<Rightarrow> 'v \<Rightarrow> nat \<Rightarrow> nat \<Rightarrow> 'v TTLCache" where
  "cacheSet c key v ttlMs now = (key, v, now + ttlMs) # cacheDelete c key"

definition portsCacheKey :: string where
  "portsCacheKey = ''endpoint:ports:local''"

record App =
  db :: Database
  responseCache :: "AggregatedPort list TTLCache"

subsection \<open>Requests and responses\<close>

text \<open>
  A JSON body after parsing. An absent string field that the validators test with \<open>!x\<close> is
  the empty string (both are rejected alike); \<open>internal\<close> is used for its truthiness only;
  a port is an integer or absent.
\<close>

record AnnotationRequest =
  rq_server_id :: string
  rq_host_ip :: string
  rq_host_port :: "int option"
  rq_protocol :: string
  rq_container_id :: "string option"
  rq_internal :: bool
  rq_note :: "string option"
  rq_ignored :: "bool option"
  rq_custom_name :: "string option"
  rq_original_name :: "string option"

datatype Outcome =
    NameOutcome string int string "string option" string
  | NoteSet string int "string option" bool
  | NoteDeleted string int "string option" bool nat
  | ItemFailed string

datatype Body =
    Saved string
  | Failed string string "string option"
  | ErrorOnly string
  | Results "Outcome list"
  | NoteRows "NoteRow list"
  | Ports bool "AggregatedPort list"

record Response =
  status :: nat
  body :: Body

definition respond :: "nat \<Rightarrow> Body \<Rightarrow> Response" where
  "respond s b = \<lparr>status = s, body = b\<rparr>"

definition apostrophe :: string where
  "apostrophe = [char_of (39 :: nat)]"

definition dquote :: string where
  "dquote = [char_of (34 :: nat)]"

definition validPort :: "int option \<Rightarrow> bool" where
  "validPort p = (case p of None \<Rightarrow> False | Some n \<Rightarrow> 0 < n \<and> n \<le> 65535)"

definition validProtocol :: "string \<Rightarrow> bool" where
  "validProtocol p = (p = ''tcp'' \<or> p = ''udp'')"

definition badContainer :: "string option \<Rightarrow> bool" where
  "badContainer c = (case c of None \<Rightarrow> False | Some s \<Rightarrow> trim s = [])"

text \<open>The middlewares return the rejection, or \<open>None\<close> where they call \<open>next()\<close>.\<close>

definition validateNoteInput :: "AnnotationRequest \<Rightarrow> Database \<Rightarrow> Response option" where
  "validateNoteInput rq d =
    (if rq_server_id rq = [] then
       Some (respond 400 (Failed ''Validation failed''
         ''Field 'server_id' is required and must be a string'' (Some ''server_id'')))
     else if rq_host_ip rq = [] then
       Some (respond 400 (Failed ''Validation failed''
         ''Field 'host_ip' is required and must be a string'' (Some ''host_ip'')))
     else if rq_host_port rq = None then
       Some (respond 400 (Failed ''Validation failed''
         ''Field 'host_port' is required and must be a valid port number'' (Some ''host_port'')))
     else if \<not> validProtocol (rq_protocol rq) then
       Some (respond 400 (Failed ''Validation failed''
         (''Field 'protocol' is required and must be either 'tcp' or 'udp'' @ apostrophe) (Some ''protocol'')))
     else if badContainer (rq_container_id rq) then
       Some (respond 400 (Failed ''Invalid input for note entry''
         ''container_id must be a non-empty string when provided'' (Some ''container_id'')))
     else if rq_server_id rq \<notin> set (servers d) then
       Some (respond 404 (Failed ''Validation failed''
         (''Server with id '' @ apostrophe @ rq_server_id rq @ apostrophe @ '' not found'') (Some ''server_id'')))
     else None)"

definition validateNameKey :: "AnnotationRequest \<Rightarrow> Response option" where
  "validateNameKey rq =
    (if trim (rq_server_id rq) = [] then
       Some (respond 400 (Failed ''Validation failed''
         ''server_id is required and must be a non-empty string'' (Some ''server_id'')))
     else if trim (rq_host_ip rq) = [] then
       Some (respond 400 (Failed ''Validation failed''
         ''host_ip is required and must be a non-empty string'' (Some ''host_ip'')))
     else if \<not> validPort (rq_host_port rq) then
       Some (respond 400 (Failed ''Validation failed''
         ''host_port is required and must be a valid port number (1-65535)'' (Some ''host_port'')))
     else if \<not> validProtocol (rq_protocol rq) then
       Some (respond 400 (Failed ''Validation failed''
         (''Field 'protocol' is required and must be either 'tcp' or 'udp'' @ apostrophe) (Some ''protocol'')))
     else None)"

definition validateIgnoreInput :: "AnnotationRequest \<Rightarrow> Response option" where
  "validateIgnoreInput rq =
    (case validateNameKey rq of
       Some r \<Rightarrow> Some r
     | None \<Rightarrow>
        if rq_ignored rq = None then
          Some (respond 400 (Failed ''Validation failed''
            ''ignored is required and must be a boolean'' (Some ''ignored'')))
        else if badContainer (rq_container_id rq) then
          Some (respond 400 (Failed ''Validation failed''
            ''container_id must be a non-empty string when provided'' (Some ''container_id'')))
        else None)"

definition validateCustomServiceNameInput :: "AnnotationRequest \<Rightarrow> Response option" where
  "validateCustomServiceNameInput rq =
    (case validateNameKey rq of
       Some r \<Rightarrow> Some r
     | None \<Rightarrow>
        if (case rq_custom_name rq of None \<Rightarrow> False | Some s \<Rightarrow> trim s = []) then
          Some (respond 400 (Failed ''Validation failed''
            ''custom_name must be a non-empty string when provided'' (Some ''custom_name'')))
        else if badContainer (rq_container_id rq) then
          Some (respond 400 (Failed ''Validation failed''
            ''container_id must be a non-empty string when provided'' (Some ''container_id'')))
        else None)"

definition validateCustomServiceNameDeleteInput :: "AnnotationRequest \<Rightarrow> Response option" where
  "validateCustomServiceNameDeleteInput rq =
    (case validateNameKey rq of
       Some r \<Rightarrow> Some r
     | None \<Rightarrow>
        if badContainer (rq_container_id rq) then
          Some (respond 400 (Failed ''Validation failed''
            ''container_id must be a non-empty string when provided'' (Some ''container_id'')))
        else None)"


subsection \<open>Single-item handlers\<close>

text \<open>
  The handlers are modelled behind \<open>requireAuth\<close>, for a request that is let through. Each
  takes the current time (for \<open>datetime('now')\<close> and the column defaults) and the
  application state, and returns the response with the new state. An exception thrown by
  a statement is an \<open>Inl\<close>; the \<open>catch\<close> of the handler turns it into status 500.
\<close>

definition noteTrimmed :: "string option \<Rightarrow> string" where
  "noteTrimmed n = (case n of None \<Rightarrow> [] | Some s \<Rightarrow> if s = [] then [] else trim s)"

definition setNotes :: "App \<Rightarrow> NoteRow list \<Rightarrow> App" where
  "setNotes app rows = app\<lparr>db := (db app)\<lparr>notes_tbl := rows\<rparr>\<rparr>"

definition setIgnores :: "App \<Rightarrow> IgnoreRow list \<Rightarrow> App" where
  "setIgnores app rows = app\<lparr>db := (db app)\<lparr>ignores := rows\<rparr>\<rparr>"

definition setNames :: "App \<Rightarrow> CustomNameRow list \<Rightarrow> App" where
  "setNames app rows = app\<lparr>db := (db app)\<lparr>custom_service_names := rows\<rparr>\<rparr>"

definition invalidatePorts :: "App \<Rightarrow> App" where
  "invalidatePorts app = app\<lparr>responseCache := cacheDelete (responseCache app) portsCacheKey\<rparr>"

definition newNoteRow ::
  "string \<Rightarrow> string \<Rightarrow> int \<Rightarrow> string \<Rightarrow> string option \<Rightarrow> bool \<Rightarrow> string \<Rightarrow> nat \<Rightarrow> nat option
     \<Rightarrow> NoteRow" where
  "newNoteRow sid ip port proto cid intl t created updated =
     \<lparr>server_id = sid, host_ip = ip, host_port = port, protocol = proto, container_id = cid,
      internal = intl, note_text = t, note_created_at = created, note_updated_at = updated\<rparr>"

definition newNameRow ::
  "string \<Rightarrow> string \<Rightarrow> int \<Rightarrow> string \<Rightarrow> string option \<Rightarrow> bool \<Rightarrow> string \<Rightarrow> string option
     \<Rightarrow> nat \<Rightarrow> CustomNameRow" where
  "newNameRow sid ip port proto cid intl nm orig now =
     \<lparr>server_id = sid, host_ip = ip, host_port = port, protocol = proto, container_id = cid,
      internal = intl, custom_name = nm, original_name = orig, cn_created_at = now,
      cn_updated_at = now\<rparr>"

text \<open>The handler of \<open>POST /api/notes\<close>.\<close>

definition saveNote :: "nat \<Rightarrow> AnnotationRequest \<Rightarrow> App \<Rightarrow> Response \<times> App" where
  "saveNote now rq app =
    (let failed = respond 500 (Failed ''Database operation failed'' ''Unable to save note'' None);
         saved = respond 200 (Saved ''Note saved successfully'');
         t = noteTrimmed (rq_note rq);
         cid = orNull (rq_container_id rq);
         rows = notes_tbl (db app)
     in case rq_host_port rq of
          None \<Rightarrow> (failed, app)
        | Some port \<Rightarrow>
           (let hit = whereKey (rq_server_id rq) (rq_host_ip rq) port (rq_protocol rq) cid
                        (rq_internal rq)
            in if \<exists>r \<in> set rows. hit r then
                 (if t = [] then (saved, setNotes app (deleteWhere hit rows))
                  else (saved, setNotes app
                          (updateWhere hit
                             (\<lambda>r. r\<lparr>note_text := t, note_updated_at := Some now\<rparr>) rows)))
               else if t \<noteq> [] then
                 (case insertRow (servers (db app))
                         (newNoteRow (rq_server_id rq) (rq_host_ip rq) port (rq_protocol rq) cid
                            (rq_internal rq) t now None) rows of
                    Inl e \<Rightarrow> (failed, app)
                  | Inr rows' \<Rightarrow> (saved, setNotes app rows'))
               else (saved, app)))"

definition postNotes :: "nat \<Rightarrow> AnnotationRequest \<Rightarrow> App \<Rightarrow> Response \<times> App" where
  "postNotes now rq app =
     (case validateNoteInput rq (db app) of
        Some rejected \<Rightarrow> (rejected, app)
      | None \<Rightarrow> saveNote now rq app)"

text \<open>\<open>GET /api/notes?server_id=...\<close>: the rows of one server.\<close>

definition getNotes :: "string \<Rightarrow> App \<Rightarrow> Response" where
  "getNotes sid app =
     (if sid = [] then respond 400 (ErrorOnly ''server_id query parameter is required'')
      else respond 200 (NoteRows (filter (\<lambda>r. server_id r = sid) (notes_tbl (db app)))))"

text \<open>
  Reading a note back: the texts that \<open>GET /api/notes\<close> lists for one identity.
\<close>

definition noteRowsOf :: "Response \<Rightarrow> NoteRow list" where
  "noteRowsOf r = (case body r of NoteRows rows \<Rightarrow> rows | _ \<Rightarrow> [])"

definition readNote ::
  "string \<Rightarrow> string \<Rightarrow> int \<Rightarrow> string \<Rightarrow> string option \<Rightarrow> bool \<Rightarrow> App \<Rightarrow> string list" where
  "readNote sid ip port proto cid intl app =
     map note_text (filter (whereKey sid ip port proto cid intl) (noteRowsOf (getNotes sid app)))"

text \<open>The handler of \<open>POST /api/ignores\<close>.\<close>

definition saveIgnore :: "nat \<Rightarrow> AnnotationRequest \<Rightarrow> App \<Rightarrow> Response \<times> App" where
  "saveIgnore now rq app =
    (let failed = respond 500
           (Failed ''Database operation failed'' ''Unable to update ignore status'' None);
         saved = respond 200 (Saved ''Ignore status updated'');
         cid = orNull (rq_container_id rq);
         rows = ignores (db app)
     in case rq_host_port rq of
          None \<Rightarrow> (failed, app)
        | Some port \<Rightarrow>
           (let hit = whereKey (rq_server_id rq) (rq_host_ip rq) port (rq_protocol rq) cid
                        (rq_internal rq);
                existing = (\<exists>r \<in> set rows. hit r)
            in if rq_ignored rq = Some True then
                 (if \<not> existing then
                    (case insertRow (servers (db app))
                            \<lparr>server_id = rq_server_id rq, host_ip = rq_host_ip rq,
                             host_port = port, protocol = rq_protocol rq, container_id = cid,
                             internal = rq_internal rq, ignore_created_at = now\<rparr> rows of
                       Inl e \<Rightarrow> (failed, app)
                     | Inr rows' \<Rightarrow> (saved, setIgnores app rows'))
                  else (saved, app))
               else
                 (if existing then (saved, setIgnores app (deleteWhere hit rows))
                  else (saved, app))))"

definition postIgnores :: "nat \<Rightarrow> AnnotationRequest \<Rightarrow> App \<Rightarrow> Response \<times> App" where
  "postIgnores now rq app =
     (case validateIgnoreInput rq of
        Some rejected \<Rightarrow> (rejected, app)
      | None \<Rightarrow> saveIgnore now rq app)"

text \<open>
  The update-or-insert of one custom name, as the single and the batch handler both write
  it. \<open>custom_name\<close> is a NOT NULL column: a missing name makes the statement throw.
\<close>

definition upsertName ::
  "string list \<Rightarrow> string \<Rightarrow> string \<Rightarrow> int \<Rightarrow> string \<Rightarrow> string option \<Rightarrow> bool \<Rightarrow> string option
     \<Rightarrow> string option \<Rightarrow> nat \<Rightarrow> CustomNameRow list \<Rightarrow> DbError + (bool \<times> CustomNameRow list)" where
  "upsertName srv sid ip port proto cid intl nm orig now rows =
    (let hit = whereKey sid ip port proto cid intl in
     case nm of
       None \<Rightarrow> Inl NotNullFailed
     | Some n \<Rightarrow>
        if \<exists>r \<in> set rows. hit r then
          Inr (True, updateWhere hit
                 (\<lambda>r. r\<lparr>custom_name := n, original_name := orNull orig, cn_updated_at := now\<rparr>)
                 rows)
        else
          (case insertRow srv (newNameRow sid ip port proto cid intl n (orNull orig) now) rows of
             Inl e \<Rightarrow> Inl e
           | Inr rows' \<Rightarrow> Inr (False, rows')))"

text \<open>
  The write to the sibling wildcard address. The \<open>UPDATE\<close> of an existing sibling row is
  not guarded; the \<open>INSERT\<close> of a new one is wrapped in its own \<open>try\<close>, and its failure
  is only logged.
\<close>

definition mirrorName ::
  "string list \<Rightarrow> string \<Rightarrow> string \<Rightarrow> int \<Rightarrow> string \<Rightarrow> string \<Rightarrow> string option \<Rightarrow> nat
     \<Rightarrow> CustomNameRow list \<Rightarrow> CustomNameRow list" where
  "mirrorName srv sid sibling port proto n orig now rows =
    (let hit = whereKey sid sibling port proto None False in
     if \<exists>r \<in> set rows. hit r then
       updateWhere hit
         (\<lambda>r. r\<lparr>custom_name := n, original_name := orNull orig, cn_updated_at := now\<rparr>) rows
     else
       (case insertRow srv (newNameRow sid sibling port proto None False n (orNull orig) now)
               rows of
          Inl e \<Rightarrow> rows
        | Inr rows' \<Rightarrow> rows'))"

text \<open>The handler of \<open>POST /api/custom-service-names\<close>.\<close>

definition saveCustomName :: "nat \<Rightarrow> AnnotationRequest \<Rightarrow> App \<Rightarrow> Response \<times> App" where
  "saveCustomName now rq app =
    (let failed = respond 500
           (Failed ''Database operation failed'' ''Unable to save custom service name'' None);
         saved = respond 200 (Saved ''Custom service name saved successfully'');
         cid = orNull (rq_container_id rq);
         srv = servers (db app)
     in case rq_host_port rq of
          None \<Rightarrow> (failed, app)
        | Some port \<Rightarrow>
           (case upsertName srv (rq_server_id rq) (rq_host_ip rq) port (rq_protocol rq) cid
                   (rq_internal rq) (rq_custom_name rq) (rq_original_name rq) now
                   (custom_service_names (db app)) of
              Inl e \<Rightarrow> (failed, app)
            | Inr (existed, rows1) \<Rightarrow>
               (let n = (case rq_custom_name rq of Some s \<Rightarrow> s | None \<Rightarrow> []);
                    rows2 =
                      (if cid = None \<and> \<not> rq_internal rq \<and> rq_host_ip rq = ''0.0.0.0'' then
                         mirrorName srv (rq_server_id rq) ''::'' port (rq_protocol rq) n
                           (rq_original_name rq) now rows1
                       else if cid = None \<and> \<not> rq_internal rq \<and> rq_host_ip rq = ''::'' then
                         mirrorName srv (rq_server_id rq) ''0.0.0.0'' port (rq_protocol rq) n
                           (rq_original_name rq) now rows1
                       else rows1)
                in (saved, invalidatePorts (setNames app rows2)))))"

definition postCustomServiceNames ::
  "nat \<Rightarrow> AnnotationRequest \<Rightarrow> App \<Rightarrow> Response \<times> App" where
  "postCustomServiceNames now rq app =
     (case validateCustomServiceNameInput rq of
        Some rejected \<Rightarrow> (rejected, app)
      | None \<Rightarrow> saveCustomName now rq app)"

text \<open>The handler of \<open>DELETE /api/custom-service-names\<close>.\<close>

definition removeCustomName :: "AnnotationRequest \<Rightarrow> App \<Rightarrow> Response \<times> App" where
  "removeCustomName rq app =
    (let failed = respond 500
           (Failed ''Database operation failed'' ''Unable to delete custom service name'' None);
         cid = orNull (rq_container_id rq);
         rows = custom_service_names (db app)
     in case rq_host_port rq of
          None \<Rightarrow> (failed, app)
        | Some port \<Rightarrow>
           (let hit = whereKey (rq_server_id rq) (rq_host_ip rq) port (rq_protocol rq) cid
                        (rq_internal rq);
                count1 = changes hit rows;
                rows1 = deleteWhere hit rows;
                legacy = whereKey (rq_server_id rq) (rq_host_ip rq) port (rq_protocol rq) None
                           (rq_internal rq);
                useLegacy = (count1 = 0 \<and> cid \<noteq> None);
                count2 = (if useLegacy then count1 + changes legacy rows1 else count1);
                rows2 = (if useLegacy then deleteWhere legacy rows1 else rows1);
                sibling =
                  (if cid = None \<and> \<not> rq_internal rq \<and> rq_host_ip rq = ''0.0.0.0''
                     then Some ''::''
                   else if cid = None \<and> \<not> rq_internal rq \<and> rq_host_ip rq = ''::''
                     then Some ''0.0.0.0''
                   else None);
                mirror = (\<lambda>s. whereKey (rq_server_id rq) s port (rq_protocol rq) None False);
                count3 = (case sibling of None \<Rightarrow> count2
                          | Some s \<Rightarrow> count2 + changes (mirror s) rows2);
                rows3 = (case sibling of None \<Rightarrow> rows2
                         | Some s \<Rightarrow> deleteWhere (mirror s) rows2)
            in if count3 > 0 then
                 (respond 200 (Saved ''Custom service name deleted successfully''),
                  invalidatePorts (setNames app rows3))
               else
                 (respond 404 (ErrorOnly ''Custom service name not found''),
                  setNames app rows3)))"

definition deleteCustomServiceNames :: "AnnotationRequest \<Rightarrow> App \<Rightarrow> Response \<times> App" where
  "deleteCustomServiceNames rq app =
     (case validateCustomServiceNameDeleteInput rq of
        Some rejected \<Rightarrow> (rejected, app)
      | None \<Rightarrow> removeCustomName rq app)"


subsection \<open>Batch handlers\<close>

record BatchOperation =
  op_action :: string
  op_host_ip :: string
  op_host_port :: "int option"
  op_protocol :: string
  op_custom_name :: "string option"
  op_original_name :: "string option"
  op_note :: "string option"
  op_container_id :: "string option"
  op_internal :: bool

text \<open>The validation loop of \<open>POST /api/custom-service-names/batch\<close>: the first
  operation that fails a check ends the request with status 400.\<close>

definition indexError :: "nat \<Rightarrow> string \<Rightarrow> Response" where
  "indexError i msg =
     respond 400 (ErrorOnly (''Operation at index '' @ numToString (int i) @ msg))"

fun validateNameOps :: "nat \<Rightarrow> BatchOperation list \<Rightarrow> Response option" where
  "validateNameOps i [] = None"
| "validateNameOps i (op # ops) =
    (if op_action op \<noteq> ''set'' \<and> op_action op \<noteq> ''delete'' then
       Some (indexError i ('': action must be '' @ dquote @ ''set'' @ dquote @ '' or '' @ dquote @ ''delete'' @ dquote))
     else if trim (op_host_ip op) = [] then
       Some (indexError i '': host_ip is required and must be a non-empty string'')
     else if \<not> validPort (op_host_port op) then
       Some (indexError i '': host_port must be a valid port number (1-65535)'')
     else if \<not> validProtocol (op_protocol op) then
       Some (indexError i
         ('': protocol is required and must be either 'tcp' or 'udp'' @ apostrophe))
     else if op_action op = ''set'' \<and>
             (case op_custom_name op of None \<Rightarrow> True | Some s \<Rightarrow> trim s = []) then
       Some (indexError i ('': custom_name is required for '' @ dquote @ ''set'' @ dquote @ '' action''))
     else if badContainer (op_container_id op) then
       Some (indexError i '': container_id must be a non-empty string when provided'')
     else validateNameOps (Suc i) ops)"

text \<open>
  The processing loop of the custom-name batch. There is no \<open>try\<close> inside the loop: a
  statement that throws leaves the loop, with the rows written so far, for the \<open>catch\<close> of
  the handler.
\<close>

fun applyNameOps ::
  "nat \<Rightarrow> string list \<Rightarrow> string \<Rightarrow> BatchOperation list \<Rightarrow> CustomNameRow list \<Rightarrow> Outcome list
     \<Rightarrow> (DbError \<times> CustomNameRow list) + (CustomNameRow list \<times> Outcome list)" where
  "applyNameOps now srv sid [] rows results = Inr (rows, results)"
| "applyNameOps now srv sid (op # ops) rows results =
    (case op_host_port op of
       None \<Rightarrow> Inl (NotNullFailed, rows)
     | Some port \<Rightarrow>
        (let cid = orNull (op_container_id op);
             outcome = NameOutcome (op_host_ip op) port (op_protocol op) (op_container_id op)
         in if op_action op = ''set'' then
              (case upsertName srv sid (op_host_ip op) port (op_protocol op) cid
                      (op_internal op) (op_custom_name op) (op_original_name op) now rows of
                 Inl e \<Rightarrow> Inl (e, rows)
               | Inr (existed, rows') \<Rightarrow>
                   applyNameOps now srv sid ops rows'
                     (results @ [outcome (if existed then ''updated'' else ''created'')]))
            else if op_action op = ''delete'' then
              (let hit = whereKey sid (op_host_ip op) port (op_protocol op) cid (op_internal op)
               in applyNameOps now srv sid ops (deleteWhere hit rows)
                    (results @ [outcome (if changes hit rows > 0 then ''deleted''
                                         else ''not_found'')]))
            else applyNameOps now srv sid ops rows results))"

definition batchCustomNames ::
  "nat \<Rightarrow> string \<Rightarrow> BatchOperation list option \<Rightarrow> App \<Rightarrow> Response \<times> App" where
  "batchCustomNames now sid operations app =
    (if trim sid = [] then
       (respond 400 (ErrorOnly ''server_id is required and must be a non-empty string''), app)
     else case operations of
       None \<Rightarrow>
         (respond 400 (ErrorOnly ''operations array is required and must not be empty''), app)
     | Some ops \<Rightarrow>
        if ops = [] then
          (respond 400 (ErrorOnly ''operations array is required and must not be empty''), app)
        else
          (case validateNameOps 0 ops of
             Some rejected \<Rightarrow> (rejected, app)
           | None \<Rightarrow>
              (case applyNameOps now (servers (db app)) sid ops
                      (custom_service_names (db app)) [] of
                 Inl (e, rows) \<Rightarrow>
                   (respond 500 (Failed ''Database operation failed''
                      ''Unable to process batch custom service name operations'' None),
                    setNames app rows)
               | Inr (rows, results) \<Rightarrow>
                   (respond 200 (Results results), invalidatePorts (setNames app rows)))))"

text \<open>
  The loop of \<open>POST /api/notes/batch\<close>. The checks of an item and the \<open>catch\<close> around
  its statements push a failure and go on; a \<open>set\<close> whose note is missing or blank, and an
  action that is neither \<open>set\<close> nor \<open>delete\<close>, push nothing.
\<close>

fun applyNoteOps ::
  "nat \<Rightarrow> string list \<Rightarrow> string \<Rightarrow> BatchOperation list \<Rightarrow> NoteRow list \<Rightarrow> Outcome list
     \<Rightarrow> NoteRow list \<times> Outcome list" where
  "applyNoteOps now srv sid [] rows results = (rows, results)"
| "applyNoteOps now srv sid (op # ops) rows results =
    (case op_host_port op of
       None \<Rightarrow> applyNoteOps now srv sid ops rows
                 (results @ [ItemFailed ''Missing required fields: action, host_ip, host_port''])
     | Some port \<Rightarrow>
        if op_action op = [] \<or> op_host_ip op = [] then
          applyNoteOps now srv sid ops rows
            (results @ [ItemFailed ''Missing required fields: action, host_ip, host_port''])
        else if \<not> validPort (op_host_port op) then
          applyNoteOps now srv sid ops rows
            (results @ [ItemFailed ''host_port must be a valid port number (1-65535)''])
        else if \<not> validProtocol (op_protocol op) then
          applyNoteOps now srv sid ops rows
            (results @ [ItemFailed
               (''protocol is required and must be either 'tcp' or 'udp'' @ apostrophe)])
        else
          (let cid = orNull (op_container_id op);
               hit = whereKey sid (op_host_ip op) port (op_protocol op) cid (op_internal op)
           in if op_action op = ''set'' \<and> op_note op \<noteq> None \<and> op_note op \<noteq> Some [] then
                (let t = noteTrimmed (op_note op) in
                 if t \<noteq> [] then
                   (if \<exists>r \<in> set rows. hit r then
                      applyNoteOps now srv sid ops
                        (updateWhere hit
                           (\<lambda>r. r\<lparr>note_text := t, note_updated_at := Some now\<rparr>) rows)
                        (results @ [NoteSet (op_host_ip op) port (op_container_id op)
                                      (op_internal op)])
                    else
                      (case insertRow srv
                              (newNoteRow sid (op_host_ip op) port (op_protocol op) cid
                                 (op_internal op) t now (Some now)) rows of
                         Inl e \<Rightarrow>
                           applyNoteOps now srv sid ops rows
                             (results @ [ItemFailed (dbErrorMessage e)])
                       | Inr rows' \<Rightarrow>
                           applyNoteOps now srv sid ops rows'
                             (results @ [NoteSet (op_host_ip op) port (op_container_id op)
                                           (op_internal op)])))
                 else applyNoteOps now srv sid ops rows results)
              else if op_action op = ''delete'' then
                applyNoteOps now srv sid ops (deleteWhere hit rows)
                  (results @ [NoteDeleted (op_host_ip op) port (op_container_id op)
                                (op_internal op) (changes hit rows)])
              else applyNoteOps now srv sid ops rows results))"

definition batchNotes ::
  "nat \<Rightarrow> string \<Rightarrow> BatchOperation list option \<Rightarrow> App \<Rightarrow> Response \<times> App" where
  "batchNotes now sid operations app =
    (case operations of
       None \<Rightarrow> (respond 400 (ErrorOnly ''server_id and operations array are required''), app)
     | Some ops \<Rightarrow>
        if sid = [] then
          (respond 400 (ErrorOnly ''server_id and operations array are required''), app)
        else
          (case applyNoteOps now (servers (db app)) sid ops (notes_tbl (db app)) [] of
             (rows, results) \<Rightarrow>
               (respond 200 (Results results), invalidatePorts (setNotes app rows))))"

subsection \<open>\<open>GET /api/ports\<close>\<close>

text \<open>
  The two collectors are outside the sources; what \<open>getPorts()\<close> returned, or the message
  of what it threw, is a parameter, and so are the \<open>debug\<close> query flag, the
  \<open>DISABLE_CACHE\<close> setting and the time to live \<open>RESP_TTL_PORTS\<close>.
\<close>

definition getPorts ::
  "nat \<Rightarrow> bool \<Rightarrow> bool \<Rightarrow> nat \<Rightarrow> string + PortObservation list \<Rightarrow> string + PortObservation list
     \<Rightarrow> App \<Rightarrow> Response \<times> App" where
  "getPorts now debug disableCache ttl dockerPorts systemPorts app =
    (let useCache = (\<not> debug \<and> \<not> disableCache);
         scan =
           (case dockerPorts of
              Inl msg \<Rightarrow> (respond 500 (Failed ''Failed to scan ports'' msg None), app)
            | Inr dp \<Rightarrow>
               (case systemPorts of
                  Inl msg \<Rightarrow> (respond 500 (Failed ''Failed to scan ports'' msg None), app)
                | Inr sp \<Rightarrow>
                   (let payload = aggregate (dp @ sp) in
                    (respond 200 (Ports False payload),
                     if useCache then
                       app\<lparr>responseCache :=
                             cacheSet (responseCache app) portsCacheKey payload ttl now\<rparr>
                     else app))))
     in if useCache then
          (case cacheGet (responseCache app) portsCacheKey now of
             Some cached \<Rightarrow> (respond 200 (Ports True cached), app)
           | None \<Rightarrow> scan)
        else scan)"


section \<open>Reachability probe: \<open>testProtocol\<close>\<close>















definition reachableVia ::
  "string \<Rightarrow> string \<Rightarrow> int \<Rightarrow> nat \<Rightarrow> bool option \<Rightarrow> ProbeResult" where
  "reachableVia scheme method code duration spa =
     \<lparr>pr_reachable = True, pr_statusCode = Some code, pr_protocol = Some scheme,
      pr_method = Some method, pr_responseTime = Some duration, pr_isSPA = spa,
      pr_error = None\<rparr>"

definition notReachable :: ProbeResult where
  "notReachable =
     \<lparr>pr_reachable = False, pr_statusCode = None, pr_protocol = None, pr_method = None,
      pr_responseTime = None, pr_isSPA = None, pr_error = Some ''No successful response''\<rparr>"






section \<open>Login: \<open>POST /api/auth/login\<close>\<close>

record User =
  user_id :: string
  username :: string
  password_hash :: string
  last_login :: "nat option"

text \<open>The recovery manager: \<open>validateKey\<close> invalidates an expired key as a side effect.\<close>

record RecoveryManager =
  recoveryKey :: "string option"
  expiresAt :: "nat option"
  used :: bool

definition invalidate :: "RecoveryManager \<Rightarrow> RecoveryManager" where
  "invalidate rm =
     (if recoveryKey rm \<noteq> None then \<lparr>recoveryKey = None, expiresAt = None, used = True\<rparr>
      else rm)"

definition validateKey :: "RecoveryManager \<Rightarrow> nat \<Rightarrow> string \<Rightarrow> bool \<times> RecoveryManager" where
  "validateKey rm now inputKey =
     (if recoveryKey rm = None \<or> used rm then (False, rm)
      else if now > (case expiresAt rm of None \<Rightarrow> 0 | Some e \<Rightarrow> e) then (False, invalidate rm)
      else (Some inputKey = recoveryKey rm, rm))"

definition markAsUsed :: "RecoveryManager \<Rightarrow> RecoveryManager" where
  "markAsUsed rm = rm\<lparr>used := True\<rparr>"

text \<open>
  What the handler cannot decide by itself is a parameter: whether \<open>ENABLE_AUTH\<close> is set,
  the users table (\<open>None\<close> where the statement throws), the clock, \<open>bcrypt.compare\<close>, and
  whether regenerating and saving the session work.
\<close>

record LoginEnv =
  authEnabled :: bool
  users :: "User list option"
  clock :: nat
  bcryptCompare :: "string \<Rightarrow> string \<Rightarrow> bool"
  regenerateOk :: bool
  saveOk :: bool

record Session =
  ses_userId :: string
  ses_username :: string
  ses_requirePasswordChange :: bool

datatype AuthBody = AuthError string | LoggedIn string bool

record LoginRun =
  login_status :: nat
  login_body :: AuthBody
  login_recovery :: RecoveryManager
  login_users :: "User list option"
  login_session :: "Session option"
  login_compared :: "(string \<times> string) list"

definition dummyHash :: string where
  "dummyHash = ''$2a$10$AAAAAAAAAAAAAAAAAAAAAA.AAAAAAAAAAAAAAAAAAAAAAAAAAAAAAAAA''"

definition loginRun ::
  "nat \<Rightarrow> AuthBody \<Rightarrow> RecoveryManager \<Rightarrow> User list option \<Rightarrow> Session option
     \<Rightarrow> (string \<times> string) list \<Rightarrow> LoginRun" where
  "loginRun s b rm us ses cmp =
     \<lparr>login_status = s, login_body = b, login_recovery = rm, login_users = us,
      login_session = ses, login_compared = cmp\<rparr>"

text \<open>\<open>req.session.regenerate\<close> and \<open>req.session.save\<close>, and the answer sent from
  their callbacks.\<close>

definition openSession ::
  "LoginEnv \<Rightarrow> string \<Rightarrow> AuthBody \<Rightarrow> Session \<Rightarrow> RecoveryManager \<Rightarrow> User list option
     \<Rightarrow> (string \<times> string) list \<Rightarrow> LoginRun" where
  "openSession env failure success ses rm us cmp =
     (if \<not> regenerateOk env then loginRun 500 (AuthError failure) rm us None cmp
      else if \<not> saveOk env then loginRun 500 (AuthError failure) rm us None cmp
      else loginRun 200 success rm us (Some ses) cmp)"

text \<open>
  The handler of \<open>POST /login\<close>, for a username and a password that are strings (an
  absent one is the empty string, rejected alike).
\<close>

definition login :: "LoginEnv \<Rightarrow> RecoveryManager \<Rightarrow> string \<Rightarrow> string \<Rightarrow> LoginRun" where
  "login env rm uname password =
    (if \<not> authEnabled env then
       loginRun 400 (AuthError ''Authentication is not enabled'') rm (users env) None []
     else if uname = [] \<or> password = [] then
       loginRun 400 (AuthError ''Username and password are required'') rm (users env) None []
     else
       (let trimmedUsername = trim uname in
        case validateKey rm (clock env) password of
          (True, rm1) \<Rightarrow>
            (case users env of
               None \<Rightarrow> loginRun 500 (AuthError ''Recovery failed'') rm1 None None []
             | Some [] \<Rightarrow>
                 loginRun 400 (AuthError ''No users found in database'') rm1 (Some []) None []
             | Some (user # rest) \<Rightarrow>
                 openSession env ''Recovery failed'' (LoggedIn (username user) True)
                   \<lparr>ses_userId = user_id user, ses_username = username user,
                    ses_requirePasswordChange = True\<rparr>
                   (markAsUsed rm1) (Some (user # rest)) [])
        | (False, rm1) \<Rightarrow>
            (case users env of
               None \<Rightarrow> loginRun 500 (AuthError ''Login failed'') rm1 None None []
             | Some us \<Rightarrow>
                (let found = find (\<lambda>u. username u = trimmedUsername) us;
                     hashToCompare = (case found of Some user \<Rightarrow> password_hash user
                                      | None \<Rightarrow> dummyHash);
                     isValid = bcryptCompare env password hashToCompare;
                     compared = [(password, hashToCompare)]
                 in case found of
                      None \<Rightarrow>
                        loginRun 401 (AuthError ''Invalid credentials'') rm1 (Some us) None
                          compared
                    | Some user \<Rightarrow>
                        if \<not> isValid then
                          loginRun 401 (AuthError ''Invalid credentials'') rm1 (Some us) None
                            compared
                        else
                          openSession env ''Login failed'' (LoggedIn (username user) False)
                            \<lparr>ses_userId = user_id user, ses_username = username user,
                             ses_requirePasswordChange = False\<rparr>
                            rm1
                            (Some (map (\<lambda>u. if user_id u = user_id user
                                             then u\<lparr>last_login := Some (clock env)\<rparr> else u) us))
                            compared))))"


section \<open>Sample inputs\<close>

text \<open>A database that knows the server \<open>local\<close> only, and a populated response cache.\<close>

definition emptyDb :: Database where
  "emptyDb = \<lparr>servers = [''local''], notes_tbl = [], ignores = [], custom_service_names = []\<rparr>"

definition request :: "string \<Rightarrow> string \<Rightarrow> int \<Rightarrow> AnnotationRequest" where
  "request sid ip port =
     \<lparr>rq_server_id = sid, rq_host_ip = ip, rq_host_port = Some port, rq_protocol = ''tcp'',
      rq_container_id = None, rq_internal = False, rq_note = None, rq_ignored = None,
      rq_custom_name = None, rq_original_name = None\<rparr>"

definition operation :: "string \<Rightarrow> string \<Rightarrow> int \<Rightarrow> BatchOperation" where
  "operation act ip port =
     \<lparr>op_action = act, op_host_ip = ip, op_host_port = Some port, op_protocol = ''tcp'',
      op_custom_name = None, op_original_name = None, op_note = None, op_container_id = None,
      op_internal = False\<rparr>"

text \<open>A sample observation on TCP, outside any container.\<close>

definition observation :: "string \<Rightarrow> int \<Rightarrow> string \<Rightarrow> int jsval \<Rightarrow> PortObservation" where
  "observation ip port own p =
     \<lparr>ob_host_ip = Val ip, ob_host_port = Val port, ob_protocol = Val ''tcp'',
      ob_owner = Val own, ob_pid = p, ob_container_id = Undefined, ob_internal = False\<rparr>"

definition cachedPorts :: "AggregatedPort list" where
  "cachedPorts = aggregate [observation ''0.0.0.0'' 80 ''nginx'' (Val 41)]"

definition warmApp :: App where
  "warmApp = \<lparr>db = emptyDb, responseCache = cacheSet [] portsCacheKey cachedPorts 3000 1000\<rparr>"



definition alice :: User where
  "alice = \<lparr>user_id = ''u1'', username = ''alice'', password_hash = ''$2a$10$hashofalice'',
     last_login = None\<rparr>"

definition loginEnv :: LoginEnv where
  "loginEnv = \<lparr>authEnabled = True, users = Some [alice], clock = 5000,
     bcryptCompare = (\<lambda>p h. p = ''secret'' \<and> h = ''$2a$10$hashofalice''),
     regenerateOk = True, saveOk = True\<rparr>"

definition noRecovery :: RecoveryManager where
  "noRecovery = \<lparr>recoveryKey = None, expiresAt = None, used = False\<rparr>"


section \<open>Verification: classifier and status resolver\<close>

lemma WELL_KNOWN_PORTS_None:
  "p \<notin> wellKnownPortNumbers \<Longrightarrow> WELL_KNOWN_PORTS p = None"
  by (simp add: WELL_KNOWN_PORTS_def WELL_KNOWN_PORTS_table_def wellKnownPortNumbers_def)

lemma WELL_KNOWN_PORTS_Some:
  "p \<in> wellKnownPortNumbers \<Longrightarrow>
     \<exists>d. WELL_KNOWN_PORTS p = Some d \<and> sd_type d \<in> {''system'', ''web'', ''database''}"
  unfolding wellKnownPortNumbers_def WELL_KNOWN_PORTS_def WELL_KNOWN_PORTS_table_def
  by (auto simp: mkDescriptor_def)

lemma detect_listed:
  "WELL_KNOWN_PORTS p = Some d \<Longrightarrow> detectServiceType p owner = d"
  by (simp add: detectServiceType_def)

lemma ownerMatches_has:
  "ownerMatches owner ws =
     (\<exists>w \<in> set ws. case (case owner of None \<Rightarrow> None
                           | Some s \<Rightarrow> if s = [] then None else Some (toLowerCase s)) of
                      None \<Rightarrow> False | Some l \<Rightarrow> strIncludes l w)" if "[] \<notin> set ws"
  using that by (cases owner) (auto simp: ownerMatches_def toLowerCase_def)

lemma detect_unlisted:
  assumes "p \<notin> wellKnownPortNumbers"
  shows "detectServiceType p owner =
      (if ownerMatches owner [''ssh'', ''sshd''] then
         mkDescriptor ''SSH'' ''system'' ''SSH service''
       else if ownerMatches owner [''nginx'', ''apache'', ''httpd''] then
         mkDescriptor ''Web Server'' ''web'' ''Web server''
       else if ownerMatches owner [''mysql'', ''postgres'', ''redis''] then
         mkDescriptor ''Database'' ''database'' ''Database service''
       else if webRangePort p then
         mkDescriptor ''Web Service'' ''web'' ''Web service''
       else if p < 1024 then
         mkDescriptor ''System Service'' ''system'' ''System service''
       else mkDescriptor ''Service'' ''service'' ''Application service'')"
proof -
  have w: "webRangePort p = (p = 80 \<or> p = 443 \<or> p = 8080 \<or> p = 8443 \<or>
                 (p \<ge> 3000 \<and> p \<le> 3999) \<or> (p \<ge> 4000 \<and> p \<le> 4999) \<or>
                 (p \<ge> 8000 \<and> p \<le> 8999) \<or> (p \<ge> 9000 \<and> p \<le> 9999))"
    by (auto simp: webRangePort_def)
  show ?thesis
    unfolding detectServiceType_def WELL_KNOWN_PORTS_None [OF assms] w
    by (simp add: ownerMatches_has Let_def)
qed

lemma detect_type:
  "sd_type (detectServiceType p owner) \<in> {''system'', ''web'', ''database'', ''service''}"
proof (cases "p \<in> wellKnownPortNumbers")
  case True
  from WELL_KNOWN_PORTS_Some [OF True] obtain d where
    "WELL_KNOWN_PORTS p = Some d" "sd_type d \<in> {''system'', ''web'', ''database''}" by blast
  then show ?thesis by (auto simp: detect_listed)
next
  case False
  show ?thesis unfolding detect_unlisted [OF False] by (simp add: mkDescriptor_def)
qed

text \<open>
  Claim C6. For every port number from 0 to 65535 and every owner (a string, or absent),
  \<open>detectServiceType\<close> returns one descriptor, whose type is one of the four service
  types, and there is no failing branch. The first matching rule decides: the exact entry
  of the well-known-port table; otherwise the owner keyword groups, SSH before web server
  before database; otherwise the web port ranges; otherwise \<open>port < 1024\<close> as a system
  service; otherwise the default descriptor \<open>Service\<close>.
\<close>

theorem detectServiceType_total_first_match:
  assumes "0 \<le> port" and "port \<le> 65535"
  shows
   "(port \<in> wellKnownPortNumbers \<longrightarrow>
       WELL_KNOWN_PORTS port = Some (detectServiceType port owner)) \<and>
    (port \<notin> wellKnownPortNumbers \<longrightarrow>
       detectServiceType port owner =
        (if ownerMatches owner [''ssh'', ''sshd''] then
           mkDescriptor ''SSH'' ''system'' ''SSH service''
         else if ownerMatches owner [''nginx'', ''apache'', ''httpd''] then
           mkDescriptor ''Web Server'' ''web'' ''Web server''
         else if ownerMatches owner [''mysql'', ''postgres'', ''redis''] then
           mkDescriptor ''Database'' ''database'' ''Database service''
         else if webRangePort port then
           mkDescriptor ''Web Service'' ''web'' ''Web service''
         else if port < 1024 then
           mkDescriptor ''System Service'' ''system'' ''System service''
         else mkDescriptor ''Service'' ''service'' ''Application service'')) \<and>
    sd_type (detectServiceType port owner) \<in> {''system'', ''web'', ''database'', ''service''}"
proof (intro conjI impI)
  assume "port \<in> wellKnownPortNumbers"
  from WELL_KNOWN_PORTS_Some [OF this] obtain d where d: "WELL_KNOWN_PORTS port = Some d"
    by blast
  then show "WELL_KNOWN_PORTS port = Some (detectServiceType port owner)"
    by (simp add: detect_listed)
next
  assume "port \<notin> wellKnownPortNumbers"
  then show "detectServiceType port owner =
        (if ownerMatches owner [''ssh'', ''sshd''] then
           mkDescriptor ''SSH'' ''system'' ''SSH service''
         else if ownerMatches owner [''nginx'', ''apache'', ''httpd''] then
           mkDescriptor ''Web Server'' ''web'' ''Web server''
         else if ownerMatches owner [''mysql'', ''postgres'', ''redis''] then
           mkDescriptor ''Database'' ''database'' ''Database service''
         else if webRangePort port then
           mkDescriptor ''Web Service'' ''web'' ''Web service''
         else if port < 1024 then
           mkDescriptor ''System Service'' ''system'' ''System service''
         else mkDescriptor ''Service'' ''service'' ''Application service'')"
    by (rule detect_unlisted)
next
  show "sd_type (detectServiceType port owner) \<in> {''system'', ''web'', ''database'', ''service''}"
    by (rule detect_type)
qed

theorem detectServiceType_total_first_match_witness:
  "(0::int) \<le> 22 \<and> (22::int) \<le> 65535 \<and> (22::int) \<in> wellKnownPortNumbers \<and>
   detectServiceType 22 (Some ''nginx'') = mkDescriptor ''SSH'' ''system'' ''Secure Shell (SSH)'' \<and>
   (0::int) \<le> 5000 \<and> (5000::int) \<le> 65535 \<and> (5000::int) \<notin> wellKnownPortNumbers \<and>
   detectServiceType 5000 (Some ''/usr/sbin/NGINX'') = mkDescriptor ''Web Server'' ''web'' ''Web server''"
proof -
  have m: "\<not> ownerMatches (Some ''/usr/sbin/NGINX'') [''ssh'', ''sshd'']"
          "ownerMatches (Some ''/usr/sbin/NGINX'') [''nginx'', ''apache'', ''httpd'']"
    by (simp_all add: ownerMatches_def) code_simp+
  have t: "WELL_KNOWN_PORTS 22 = Some (mkDescriptor ''SSH'' ''system'' ''Secure Shell (SSH)'')"
    by (simp add: WELL_KNOWN_PORTS_def WELL_KNOWN_PORTS_table_def)
  show ?thesis
    using detectServiceType_total_first_match [of 22 "Some ''nginx''"]
          detectServiceType_total_first_match [of 5000 "Some ''/usr/sbin/NGINX''"] m t
    by (simp add: wellKnownPortNumbers_def)
qed

lemma status_system:
  "sd_type d = ''system'' \<Longrightarrow>
     sr_status (determineServiceStatus d hs h) = ''system'' \<and>
     sr_color (determineServiceStatus d hs h) = ''gray''"
  by (simp add: determineServiceStatus_def mkStatus_def)

lemma working_http_only:
  "\<not> pr_reachable hs \<Longrightarrow> pr_reachable h \<Longrightarrow> workingResponse hs h = Some h"
  by (simp add: workingResponse_def)

lemma status_web_404:
  assumes "sd_type d = ''web''" "workingResponse hs h = Some w" "pr_statusCode w = Some 404"
  shows "sr_status (determineServiceStatus d hs h) =
           (if pr_isSPA w = Some True then ''accessible'' else ''listening'') \<and>
         sr_color (determineServiceStatus d hs h) =
           (if pr_isSPA w = Some True then ''green'' else ''yellow'')"
  using assms
  by (simp add: determineServiceStatus_def webStatus_def mkStatus_def numGe_def numLt_def)

lemma status_database_403:
  assumes "sd_type d = ''database''" "workingResponse hs h = Some w" "pr_statusCode w = Some 403"
  shows "sr_status (determineServiceStatus d hs h) = ''listening'' \<and>
         sr_color (determineServiceStatus d hs h) = ''yellow''"
  using assms
  by (simp add: determineServiceStatus_def otherStatus_def mkStatus_def)

text \<open>
  Claim C5. The decision table of the status resolver: a web descriptor with HTTPS
  unreachable and HTTP reachable with status 404 and no SPA mark is listening/yellow; the
  same with the SPA mark is accessible/green; a system descriptor is system/gray whatever
  the probes returned; a database descriptor whose working response has status 403 is
  listening/yellow.
\<close>

theorem determineServiceStatus_decision_table:
  "(sd_type d = ''web'' \<and> \<not> pr_reachable hs \<and> pr_reachable h \<and>
      pr_statusCode h = Some 404 \<and> pr_isSPA h \<noteq> Some True \<longrightarrow>
      sr_status (determineServiceStatus d hs h) = ''listening'' \<and>
      sr_color (determineServiceStatus d hs h) = ''yellow'') \<and>
   (sd_type d = ''web'' \<and> \<not> pr_reachable hs \<and> pr_reachable h \<and>
      pr_statusCode h = Some 404 \<and> pr_isSPA h = Some True \<longrightarrow>
      sr_status (determineServiceStatus d hs h) = ''accessible'' \<and>
      sr_color (determineServiceStatus d hs h) = ''green'') \<and>
   (sd_type d = ''system'' \<longrightarrow>
      sr_status (determineServiceStatus d hs h) = ''system'' \<and>
      sr_color (determineServiceStatus d hs h) = ''gray'') \<and>
   (sd_type d = ''database'' \<and> workingResponse hs h = Some w \<and> pr_statusCode w = Some 403 \<longrightarrow>
      sr_status (determineServiceStatus d hs h) = ''listening'' \<and>
      sr_color (determineServiceStatus d hs h) = ''yellow'')"
  using status_system [of d hs h] status_database_403 [of d hs h w]
    status_web_404 [of d hs h h] working_http_only [of hs h]
  by auto


theorem determineServiceStatus_decision_table_witness:
  "sr_status (determineServiceStatus (mkDescriptor ''Web Service'' ''web'' ''Web service'')
      notReachable (reachableVia ''http'' ''GET'' 404 12 (Some False))) = ''listening'' \<and>
   sr_color (determineServiceStatus (mkDescriptor ''Web Service'' ''web'' ''Web service'')
      notReachable (reachableVia ''http'' ''GET'' 404 12 (Some False))) = ''yellow'' \<and>
   sr_status (determineServiceStatus (mkDescriptor ''Web Service'' ''web'' ''Web service'')
      notReachable (reachableVia ''http'' ''GET'' 404 12 (Some True))) = ''accessible'' \<and>
   sr_color (determineServiceStatus (mkDescriptor ''Web Service'' ''web'' ''Web service'')
      notReachable (reachableVia ''http'' ''GET'' 404 12 (Some True))) = ''green'' \<and>
   sr_status (determineServiceStatus (mkDescriptor ''SSH'' ''system'' ''SSH service'')
      (reachableVia ''https'' ''GET'' 200 12 (Some False)) notReachable) = ''system'' \<and>
   sr_color (determineServiceStatus (mkDescriptor ''SSH'' ''system'' ''SSH service'')
      (reachableVia ''https'' ''GET'' 200 12 (Some False)) notReachable) = ''gray'' \<and>
   workingResponse (reachableVia ''https'' ''GET'' 403 12 (Some False)) notReachable = Some (reachableVia ''https'' ''GET'' 403 12 (Some False)) \<and>
   sr_status (determineServiceStatus (mkDescriptor ''MySQL'' ''database'' ''MySQL database'')
      (reachableVia ''https'' ''GET'' 403 12 (Some False)) notReachable) = ''listening'' \<and>
   sr_color (determineServiceStatus (mkDescriptor ''MySQL'' ''database'' ''MySQL database'')
      (reachableVia ''https'' ''GET'' 403 12 (Some False)) notReachable) = ''yellow''"
proof -
  have w: "workingResponse (reachableVia ''https'' ''GET'' 403 12 (Some False)) notReachable
             = Some (reachableVia ''https'' ''GET'' 403 12 (Some False))"
    by (simp add: workingResponse_def reachableVia_def notReachable_def numGe_def numLt_def)
  show ?thesis
    using w
      determineServiceStatus_decision_table
        [of "mkDescriptor ''Web Service'' ''web'' ''Web service''" notReachable
            "reachableVia ''http'' ''GET'' 404 12 (Some False)" "reachableVia ''http'' ''GET'' 404 12 (Some False)"]
      determineServiceStatus_decision_table
        [of "mkDescriptor ''Web Service'' ''web'' ''Web service''" notReachable
            "reachableVia ''http'' ''GET'' 404 12 (Some True)" "reachableVia ''http'' ''GET'' 404 12 (Some True)"]
      determineServiceStatus_decision_table
        [of "mkDescriptor ''SSH'' ''system'' ''SSH service''" "reachableVia ''https'' ''GET'' 200 12 (Some False)"
            notReachable notReachable]
      determineServiceStatus_decision_table
        [of "mkDescriptor ''MySQL'' ''database'' ''MySQL database''"
            "reachableVia ''https'' ''GET'' 403 12 (Some False)" notReachable "reachableVia ''https'' ''GET'' 403 12 (Some False)"]
    by (simp add: mkDescriptor_def reachableVia_def notReachable_def)
qed


section \<open>Verification: port aggregation\<close>

lemma firstSeen_Nil: "firstSeen [] = []"
  by (simp add: firstSeen_def)

lemma firstSeen_snoc:
  "firstSeen (xs @ [a]) = (if a \<in> set xs then firstSeen xs else firstSeen xs @ [a])"
  by (simp add: firstSeen_def)

lemma set_firstSeen: "set (firstSeen xs) = set xs"
  by (simp add: firstSeen_def)

lemma distinct_firstSeen: "distinct (firstSeen xs)"
  by (simp add: firstSeen_def)

lemma firstSeen_truthyPid: "firstSeen (truthyPid p) = truthyPid p"
  by (simp add: firstSeen_def truthyPid_def split: jsval.splits)

lemma truthyPids_snoc: "truthyPids (es @ [e]) = truthyPids es @ truthyPid (ob_pid e)"
  by (simp add: truthyPids_def)

lemma aggKey_newEntry: "aggKey (newEntry e) = aggKey e"
  by (simp add: aggKey_def newEntry_def)

lemma aggKey_mergeInto: "aggKey (mergeInto e a) = aggKey a"
  by (simp add: aggKey_def mergeInto_def Let_def split: jsval.splits)

lemma owners_mergeInto:
  "ag_owners (mergeInto e a) =
     (if ob_owner e \<in> set (ag_owners a) then ag_owners a else ag_owners a @ [ob_owner e])"
  by (simp add: mergeInto_def Let_def split: jsval.splits)

lemma pids_mergeInto:
  "ag_pids (mergeInto e a) =
     (if set (truthyPid (ob_pid e)) \<subseteq> set (ag_pids a) then ag_pids a
      else ag_pids a @ truthyPid (ob_pid e))"
  by (auto simp: mergeInto_def truthyPid_def Let_def split: jsval.splits)

lemma firstSeen_append_pid:
  "firstSeen (xs @ truthyPid p) =
     (if set (truthyPid p) \<subseteq> set (firstSeen xs) then firstSeen xs
      else firstSeen xs @ truthyPid p)"
  by (cases p) (auto simp: truthyPid_def firstSeen_snoc set_firstSeen)

lemma map_of_None_keys: "(map_of acc k = None) = (k \<notin> set (map fst acc))"
  by (simp add: map_of_eq_None_iff)

lemma fst_reduceStep:
  "map fst (reduceStep acc e) =
     (if aggKey e \<in> set (map fst acc) then map fst acc else map fst acc @ [aggKey e])"
proof (cases "map_of acc (aggKey e)")
  case None
  then show ?thesis
    using map_of_None_keys [of acc "aggKey e"] by (simp add: reduceStep_def Let_def)
next
  case (Some a)
  then have "aggKey e \<in> set (map fst acc)"
    using map_of_None_keys [of acc "aggKey e"] by simp
  moreover have "map fst (map (\<lambda>(k, a). if k = aggKey e then (k, mergeInto e a) else (k, a)) acc)
                 = map fst acc"
    by (induction acc) auto
  ultimately show ?thesis using Some by (simp add: reduceStep_def)
qed

lemma keys_foldl:
  "map fst (foldl reduceStep [] ps) = firstSeen (map aggKey ps)"
proof (induction ps rule: rev_induct)
  case Nil
  show ?case by (simp add: firstSeen_Nil)
next
  case (snoc e ps)
  then show ?case by (simp add: fst_reduceStep firstSeen_snoc set_firstSeen)
qed

lemma entries_foldl:
  "(k, a) \<in> set (foldl reduceStep [] ps) \<Longrightarrow>
     aggKey a = k \<and>
     ag_owners a = firstSeen (map ob_owner (filter (\<lambda>e. aggKey e = k) ps)) \<and>
     ag_pids a = firstSeen (truthyPids (filter (\<lambda>e. aggKey e = k) ps))"
proof (induction ps arbitrary: k a rule: rev_induct)
  case Nil
  then show ?case by simp
next
  case (snoc e ps)
  let ?acc = "foldl reduceStep [] ps"
  have keys: "set (map fst ?acc) = aggKey ` set ps"
    by (simp add: keys_foldl set_firstSeen)
  have mem: "(k, a) \<in> set (reduceStep ?acc e)" using snoc.prems by simp
  show ?case
  proof (cases "map_of ?acc (aggKey e)")
    case None
    then have fresh: "aggKey e \<notin> aggKey ` set ps"
      using map_of_None_keys [of ?acc "aggKey e"] keys by simp
    from mem None have "(k, a) \<in> set ?acc \<or> (k, a) = (aggKey e, newEntry e)"
      by (auto simp: reduceStep_def)
    then show ?thesis
    proof
      assume old: "(k, a) \<in> set ?acc"
      then have "k \<in> aggKey ` set ps" using keys by force
      with fresh have "aggKey e \<noteq> k" by auto
      with snoc.IH [OF old] show ?thesis by simp
    next
      assume new: "(k, a) = (aggKey e, newEntry e)"
      from fresh have "filter (\<lambda>x. aggKey x = aggKey e) ps = []"
        by (force simp: filter_empty_conv image_iff)
      moreover have "ag_owners (newEntry e) = [ob_owner e]"
        "ag_pids (newEntry e) = truthyPid (ob_pid e)"
        by (simp_all add: newEntry_def)
      moreover have "firstSeen [ob_owner e] = [ob_owner e]"
        by (simp add: firstSeen_def)
      ultimately show ?thesis using new
        by (simp add: aggKey_newEntry truthyPids_def firstSeen_truthyPid)
    qed
  next
    case (Some b)
    with mem obtain a0 where a0: "(k, a0) \<in> set ?acc"
      and a: "a = (if k = aggKey e then mergeInto e a0 else a0)"
      by (auto simp: reduceStep_def split: if_splits)
    note ih = snoc.IH [OF a0]
    show ?thesis
    proof (cases "k = aggKey e")
      case True
      with a ih show ?thesis
        by (simp add: aggKey_mergeInto owners_mergeInto pids_mergeInto firstSeen_snoc
              set_firstSeen truthyPids_snoc firstSeen_append_pid)
    next
      case False
      with a ih show ?thesis by auto
    qed
  qed
qed


lemma ip_port_mergeInto:
  "ob_host_ip (mergeInto e a) = ob_host_ip a \<and> ob_host_port (mergeInto e a) = ob_host_port a"
  by (simp add: mergeInto_def Let_def split: jsval.splits)

lemma entries_origin:
  "(k, a) \<in> set (foldl reduceStep [] ps) \<Longrightarrow>
     \<exists>e \<in> set ps. ob_host_ip a = ob_host_ip e \<and> ob_host_port a = ob_host_port e"
proof (induction ps arbitrary: k a rule: rev_induct)
  case Nil
  then show ?case by simp
next
  case (snoc e ps)
  let ?acc = "foldl reduceStep [] ps"
  have mem: "(k, a) \<in> set (reduceStep ?acc e)" using snoc.prems by simp
  show ?case
  proof (cases "map_of ?acc (aggKey e)")
    case None
    with mem have "(k, a) \<in> set ?acc \<or> a = newEntry e"
      by (auto simp: reduceStep_def)
    then show ?thesis
    proof
      assume "(k, a) \<in> set ?acc"
      from snoc.IH [OF this] show ?thesis by auto
    next
      assume "a = newEntry e"
      then show ?thesis by (simp add: newEntry_def)
    qed
  next
    case (Some b)
    with mem obtain a0 where a0: "(k, a0) \<in> set ?acc"
      and a: "a = (if k = aggKey e then mergeInto e a0 else a0)"
      by (auto simp: reduceStep_def split: if_splits)
    from snoc.IH [OF a0] a show ?thesis
      by (auto simp: ip_port_mergeInto)
  qed
qed

lemma aggKey_toPayload: "aggKey (toPayload a) = aggKey a"
  by (simp add: aggKey_def toPayload_def)

lemma aggregate_keys:
  "map aggKey (aggregate entries) = firstSeen (map aggKey (filter keepEntry entries))"
proof -
  have "map aggKey (aggregate entries) = map fst (normalized entries)"
    unfolding aggregate_def normalized_def
    using entries_foldl [of _ _ "filter keepEntry entries"]
    by (auto simp: aggKey_toPayload)
  then show ?thesis by (simp add: normalized_def keys_foldl)
qed

lemma aggregate_entry:
  assumes "x \<in> set (aggregate entries)"
  shows "ag_owners x = firstSeen (map ob_owner (groupOf entries (aggKey x))) \<and>
         ag_pids x = firstSeen (truthyPids (groupOf entries (aggKey x))) \<and>
         ob_owner x = Val (joinOwners (ag_owners x)) \<and>
         truthyNum (ob_host_port x) \<and> truthyStr (ob_host_ip x)"
proof -
  from assms obtain k a where ka: "(k, a) \<in> set (foldl reduceStep [] (filter keepEntry entries))"
    and x: "x = toPayload a"
    by (auto simp: aggregate_def normalized_def)
  from entries_origin [OF ka] obtain e where "keepEntry e"
    "ob_host_ip a = ob_host_ip e" "ob_host_port a = ob_host_port e" by auto
  then have "truthyNum (ob_host_port x) \<and> truthyStr (ob_host_ip x)"
    using x by (simp add: keepEntry_def toPayload_def)
  with entries_foldl [OF ka] x show ?thesis
    by (simp add: groupOf_def aggKey_toPayload) (simp add: toPayload_def)
qed

lemma aggregate_pair:
  assumes "keepEntry e1" "keepEntry e2" "ob_host_ip e2 = ob_host_ip e1"
    "ob_host_port e2 = ob_host_port e1" "ob_protocol e2 = ob_protocol e1"
    "ob_owner e1 = Val ''nginx''" "ob_owner e2 = Val ''caddy''"
  shows "aggregate [e1, e2] =
          [(newEntry e1)\<lparr>ob_owner := Val ''nginx, caddy'',
                         ag_owners := [Val ''nginx'', Val ''caddy''],
                         ag_pids := firstSeen (truthyPids [e1, e2])\<rparr>]"
proof -
  have k: "aggKey e2 = aggKey e1" using assms by (simp add: aggKey_def)
  have p: "ag_pids (mergeInto e2 (newEntry e1)) = firstSeen (truthyPids [e1, e2])"
    by (auto simp: mergeInto_def newEntry_def truthyPids_def truthyPid_def firstSeen_def
          Let_def split: jsval.splits)
  have o: "ag_owners (mergeInto e2 (newEntry e1)) = [Val ''nginx'', Val ''caddy'']"
    using assms by (simp add: owners_mergeInto newEntry_def)
  have n: "normalized [e1, e2] = [(aggKey e1, mergeInto e2 (newEntry e1))]"
    using assms k by (simp add: normalized_def reduceStep_def)
  have "toPayload (mergeInto e2 (newEntry e1)) =
          (newEntry e1)\<lparr>ob_owner := Val ''nginx, caddy'',
                         ag_owners := [Val ''nginx'', Val ''caddy''],
                         ag_pids := firstSeen (truthyPids [e1, e2])\<rparr>"
    using o p
    by (simp add: toPayload_def) (simp add: mergeInto_def newEntry_def Let_def split: jsval.splits)
  then show ?thesis by (simp add: aggregate_def n)
qed

lemma digitsOf_small: "n < 10 \<Longrightarrow> digitsOf n = [char_of (48 + n)]"
  by (subst digitsOf.simps) simp

lemma digitsOf_large:
  "\<not> n < 10 \<Longrightarrow> digitsOf n = digitsOf (n div 10) @ [char_of (48 + n mod 10)]"
  by (subst digitsOf.simps) simp

lemma split_at_last:
  assumes "xs @ c # ys = xs' @ c # ys'" and "c \<notin> set ys" and "c \<notin> set ys'"
  shows "xs = xs' \<and> ys = ys'"
proof -
  have "takeWhile (\<lambda>x. x \<noteq> c) (rev (xs @ c # ys)) = rev ys"
    using assms(2) by (simp, subst takeWhile_append2) auto
  moreover have "takeWhile (\<lambda>x. x \<noteq> c) (rev (xs' @ c # ys')) = rev ys'"
    using assms(3) by (simp, subst takeWhile_append2) auto
  ultimately have "rev ys = rev ys'" using assms(1) by simp
  then have "ys = ys'" by simp
  with assms(1) show ?thesis by simp
qed

lemma digitsOf_digits: "c \<in> set (digitsOf n) \<Longrightarrow> 48 \<le> (of_char c :: nat) \<and> (of_char c :: nat) \<le> 57"
proof (induction n rule: digitsOf.induct)
  case (1 n)
  show ?case
  proof (cases "n < 10")
    case True
    with "1.prems" have "c = char_of (48 + n)" by (simp add: digitsOf_small)
    with True show ?thesis by simp
  next
    case False
    with "1.prems" have "c \<in> set (digitsOf (n div 10)) \<or> c = char_of (48 + n mod 10)"
      by (auto simp: digitsOf_large)
    then show ?thesis
    proof
      assume "c \<in> set (digitsOf (n div 10))"
      with "1.IH" False show ?thesis by simp
    next
      assume c: "c = char_of (48 + n mod 10)"
      have "n mod 10 < 10" by simp
      then have "(48 + n mod 10) mod 256 = 48 + n mod 10" by simp
      with c show ?thesis by simp
    qed
  qed
qed

lemma digitsOf_nonempty: "digitsOf n \<noteq> []"
  by (cases "n < 10") (simp_all add: digitsOf_small digitsOf_large)

lemma digit_char_inj:
  "a < 10 \<Longrightarrow> b < 10 \<Longrightarrow> (char_of (48 + a) :: char) = char_of (48 + b) \<Longrightarrow> a = (b::nat)"
proof -
  assume ab: "a < 10" "b < 10" and e: "(char_of (48 + a) :: char) = char_of (48 + b)"
  from e have "(of_char (char_of (48 + a) :: char) :: nat) = of_char (char_of (48 + b) :: char)"
    by simp
  with ab show "a = b" by simp
qed

lemma digitsOf_inj: "digitsOf n = digitsOf m \<Longrightarrow> n = m"
proof (induction n arbitrary: m rule: digitsOf.induct)
  case (1 n)
  show ?case
  proof (cases "n < 10")
    case True
    then have n1: "digitsOf n = [char_of (48 + n)]" by (rule digitsOf_small)
    show ?thesis
    proof (cases "m < 10")
      case m: True
      then have "digitsOf m = [char_of (48 + m)]" by (rule digitsOf_small)
      with n1 "1.prems" have "(char_of (48 + n) :: char) = char_of (48 + m)" by simp
      with True m show ?thesis by (rule digit_char_inj)
    next
      case False
      then have "digitsOf m = digitsOf (m div 10) @ [char_of (48 + m mod 10)]"
        by (rule digitsOf_large)
      with n1 "1.prems" digitsOf_nonempty [of "m div 10"] show ?thesis
        by (cases "digitsOf (m div 10)") auto
    qed
  next
    case False
    then have n2: "digitsOf n = digitsOf (n div 10) @ [char_of (48 + n mod 10)]"
      by (rule digitsOf_large)
    show ?thesis
    proof (cases "m < 10")
      case True
      then have "digitsOf m = [char_of (48 + m)]" by (rule digitsOf_small)
      with n2 "1.prems" digitsOf_nonempty [of "n div 10"] show ?thesis
        by (cases "digitsOf (n div 10)") auto
    next
      case m: False
      then have "digitsOf m = digitsOf (m div 10) @ [char_of (48 + m mod 10)]"
        by (rule digitsOf_large)
      with n2 "1.prems" have e: "digitsOf (n div 10) = digitsOf (m div 10)"
        and l: "(char_of (48 + n mod 10) :: char) = char_of (48 + m mod 10)" by simp_all
      from "1.IH" [OF False e] have d: "n div 10 = m div 10" .
      have "n mod 10 = m mod 10" using l by (intro digit_char_inj) simp_all
      with d show ?thesis by (metis div_mult_mod_eq)
    qed
  qed
qed

lemma colon_not_digit: "CHR '':'' \<notin> set (digitsOf n)"
  using digitsOf_digits [of "CHR '':''" n] by auto

lemma minus_not_digit: "CHR ''-'' \<notin> set (digitsOf n)"
  using digitsOf_digits [of "CHR ''-''" n] by auto

lemma numToString_inj: "numToString a = numToString b \<Longrightarrow> a = b"
proof -
  assume e: "numToString a = numToString b"
  have hd_nonneg: "hd (digitsOf k) \<noteq> CHR ''-''" for k
    using minus_not_digit [of k] digitsOf_nonempty [of k] by (cases "digitsOf k") auto
  show "a = b"
  proof (cases "a < 0")
    case True
    show ?thesis
    proof (cases "b < 0")
      case b: True
      with True e have "digitsOf (nat (- a)) = digitsOf (nat (- b))"
        by (simp add: numToString_def)
      then have "nat (- a) = nat (- b)" by (rule digitsOf_inj)
      with True b show ?thesis by simp
    next
      case False
      with True e have "CHR ''-'' # digitsOf (nat (- a)) = digitsOf (nat b)"
        by (simp add: numToString_def)
      with hd_nonneg [of "nat b"] show ?thesis by (metis list.sel(1))
    qed
  next
    case False
    show ?thesis
    proof (cases "b < 0")
      case True
      with False e have "digitsOf (nat a) = CHR ''-'' # digitsOf (nat (- b))"
        by (simp add: numToString_def)
      with hd_nonneg [of "nat a"] show ?thesis by (metis list.sel(1))
    next
      case b: False
      with False e have "digitsOf (nat a) = digitsOf (nat b)" by (simp add: numToString_def)
      then have "nat a = nat b" by (rule digitsOf_inj)
      with False b show ?thesis by simp
    qed
  qed
qed

lemma colon_not_in_number: "CHR '':'' \<notin> set (numToString n)"
  using colon_not_digit by (auto simp: numToString_def)

text \<open>For observations whose protocol holds no colon, as \<open>tcp\<close> and \<open>udp\<close>, the grouping
  key determines the host_ip, the host_port and the protocol.\<close>

lemma aggKey_injective:
  assumes k: "aggKey e1 = aggKey e2"
    and 1: "ob_host_ip e1 = Val ip1" "ob_host_port e1 = Val p1" "ob_protocol e1 = Val pr1"
    and 2: "ob_host_ip e2 = Val ip2" "ob_host_port e2 = Val p2" "ob_protocol e2 = Val pr2"
    and c: "CHR '':'' \<notin> set pr1" "CHR '':'' \<notin> set pr2"
  shows "ip1 = ip2 \<and> p1 = p2 \<and> pr1 = pr2"
proof -
  from k 1 2 have e: "(ip1 @ '':'' @ numToString p1) @ CHR '':'' # pr1 =
                      (ip2 @ '':'' @ numToString p2) @ CHR '':'' # pr2"
    by (simp add: aggKey_def)
  from split_at_last [OF e c] have pr: "pr1 = pr2"
    and r: "ip1 @ CHR '':'' # numToString p1 = ip2 @ CHR '':'' # numToString p2" by simp_all
  from split_at_last [OF r colon_not_in_number colon_not_in_number]
  have "ip1 = ip2" "numToString p1 = numToString p2" by simp_all
  with pr show ?thesis by (simp add: numToString_inj)
qed

text \<open>
  Claim C7, as amended. The aggregation keeps one entry per grouping key, in order of first
  appearance of the key among the kept observations. The \<open>owners\<close> of an entry are the
  owners of its group, each once, in order of first appearance; its \<open>pids\<close> are the truthy
  pids of the group (neither \<open>null\<close>, \<open>undefined\<close> nor 0), each once, in order of first
  appearance; its flat \<open>owner\<close> is the owners joined by a comma and a space. Two kept
  observations with the same host_ip, host_port and protocol and the owners nginx and caddy
  give exactly one entry, with owner \<open>nginx, caddy\<close> and owners nginx, caddy.
\<close>

theorem aggregate_groups_by_key:
  "map aggKey (aggregate entries) = firstSeen (map aggKey (filter keepEntry entries)) \<and>
   (\<forall>x \<in> set (aggregate entries).
       ag_owners x = firstSeen (map ob_owner (groupOf entries (aggKey x))) \<and>
       ag_pids x = firstSeen (truthyPids (groupOf entries (aggKey x))) \<and>
       ob_owner x = Val (joinOwners (ag_owners x))) \<and>
   (keepEntry e1 \<and> keepEntry e2 \<and> ob_host_ip e2 = ob_host_ip e1 \<and>
    ob_host_port e2 = ob_host_port e1 \<and> ob_protocol e2 = ob_protocol e1 \<and>
    ob_owner e1 = Val ''nginx'' \<and> ob_owner e2 = Val ''caddy'' \<longrightarrow>
      aggregate [e1, e2] =
          [(newEntry e1)\<lparr>ob_owner := Val ''nginx, caddy'',
                         ag_owners := [Val ''nginx'', Val ''caddy''],
                         ag_pids := firstSeen (truthyPids [e1, e2])\<rparr>])"
  using aggregate_keys [of entries] aggregate_entry [of _ entries] aggregate_pair [of e1 e2]
  by blast

lemma aggregate_skip:
  "\<not> keepEntry e \<Longrightarrow> aggregate (xs @ e # ys) = aggregate (xs @ ys)"
  by (simp add: aggregate_def normalized_def)

text \<open>
  Claim C9. The filter of the aggregation tests truthiness: an observation whose host_port
  or host_ip is falsy contributes nothing to the output, in particular one whose host_port
  is 0 or whose host_ip is the empty string although the field is present; and every entry
  of the output has a truthy host_port and host_ip.
\<close>

theorem aggregate_filter_truthiness:
  "(\<not> keepEntry e \<longrightarrow> aggregate (xs @ e # ys) = aggregate (xs @ ys)) \<and>
   (ob_host_port e = Val 0 \<longrightarrow> \<not> keepEntry e) \<and>
   (ob_host_ip e = Val [] \<longrightarrow> \<not> keepEntry e) \<and>
   (\<forall>x \<in> set (aggregate entries). truthyNum (ob_host_port x) \<and> truthyStr (ob_host_ip x))"
  using aggregate_skip [of e xs ys] aggregate_entry [of _ entries]
  by (auto simp: keepEntry_def)


theorem aggregate_groups_by_key_witness:
  "keepEntry (observation ''0.0.0.0'' 80 ''nginx'' (Val 41)) \<and>
   keepEntry (observation ''0.0.0.0'' 80 ''caddy'' (Val 42)) \<and>
   aggregate [observation ''0.0.0.0'' 80 ''nginx'' (Val 41),
              observation ''0.0.0.0'' 80 ''caddy'' (Val 42)] =
     [\<lparr>ob_host_ip = Val ''0.0.0.0'', ob_host_port = Val 80, ob_protocol = Val ''tcp'',
       ob_owner = Val ''nginx, caddy'', ob_pid = Val 41, ob_container_id = Undefined,
       ob_internal = False, ag_owners = [Val ''nginx'', Val ''caddy''], ag_pids = [41, 42]\<rparr>]"
  using aggregate_groups_by_key
    [of "[observation ''0.0.0.0'' 80 ''nginx'' (Val 41),
          observation ''0.0.0.0'' 80 ''caddy'' (Val 42)]"
        "observation ''0.0.0.0'' 80 ''nginx'' (Val 41)"
        "observation ''0.0.0.0'' 80 ''caddy'' (Val 42)"]
  by (simp add: observation_def keepEntry_def newEntry_def truthyPids_def truthyPid_def
        firstSeen_def)

text \<open>
  The claim C7 as it is worded, with "every non-null pid", fails where a pid is 0: the pid
  is present, and \<open>filter(Boolean)\<close> and the guard \<open>entry.pid &&\<close> drop it.
\<close>

theorem aggregate_pid_zero_counterexample:
  "map ag_pids (aggregate [observation ''0.0.0.0'' 80 ''nginx'' (Val 0),
                           observation ''0.0.0.0'' 80 ''caddy'' (Val 7)]) = [[7]] \<and>
   firstSeen (nonNullPids [observation ''0.0.0.0'' 80 ''nginx'' (Val 0),
                           observation ''0.0.0.0'' 80 ''caddy'' (Val 7)]) = [0, 7]"
  by (simp add: aggregate_def normalized_def reduceStep_def observation_def keepEntry_def
        aggKey_def newEntry_def mergeInto_def toPayload_def truthyPid_def nonNullPids_def
        firstSeen_def)

theorem aggregate_filter_truthiness_witness:
  "\<not> keepEntry (observation ''0.0.0.0'' 0 ''nginx'' (Val 41)) \<and>
   \<not> keepEntry (observation [] 80 ''nginx'' (Val 41)) \<and>
   aggregate ([observation ''::'' 22 ''sshd'' Null] @
              observation ''0.0.0.0'' 0 ''nginx'' (Val 41) #
              [observation [] 80 ''caddy'' (Val 42)]) =
     [\<lparr>ob_host_ip = Val ''::'', ob_host_port = Val 22, ob_protocol = Val ''tcp'',
       ob_owner = Val ''sshd'', ob_pid = Null, ob_container_id = Undefined,
       ob_internal = False, ag_owners = [Val ''sshd''], ag_pids = []\<rparr>]"
proof -
  have a: "aggregate ([observation ''::'' 22 ''sshd'' Null] @ [observation [] 80 ''caddy'' (Val 42)])
         = [\<lparr>ob_host_ip = Val ''::'', ob_host_port = Val 22, ob_protocol = Val ''tcp'',
       ob_owner = Val ''sshd'', ob_pid = Null, ob_container_id = Undefined,
       ob_internal = False, ag_owners = [Val ''sshd''], ag_pids = []\<rparr>]"
    by (simp add: aggregate_def normalized_def reduceStep_def observation_def keepEntry_def
        newEntry_def toPayload_def truthyPid_def)
  show ?thesis
    using a aggregate_filter_truthiness
      [of "observation ''0.0.0.0'' 0 ''nginx'' (Val 41)" "[observation ''::'' 22 ''sshd'' Null]"
          "[observation [] 80 ''caddy'' (Val 42)]" "[]"]
    by (simp add: observation_def keepEntry_def)
qed


section \<open>Verification: notes\<close>

lemma validateNoteInput_passes:
  "validateNoteInput rq d = None \<Longrightarrow>
     rq_server_id rq \<in> set (servers d) \<and> rq_host_port rq \<noteq> None"
  by (simp add: validateNoteInput_def split: if_splits)

lemma insertRow_fresh:
  "sid \<in> set srv \<Longrightarrow> server_id r = sid \<Longrightarrow>
   \<not> (\<exists>x \<in> set rows. whereKey (server_id r) (host_ip r) (host_port r) (protocol r)
                          (container_id r) (internal r) x) \<Longrightarrow>
   insertRow srv r rows = Inr (rows @ [r])"
  by (simp add: insertRow_def)

lemma insertRow_null_container:
  "server_id r \<in> set srv \<Longrightarrow> container_id r = None \<Longrightarrow> insertRow srv r rows = Inr (rows @ [r])"
  by (simp add: insertRow_def)

lemma whereKey_newNoteRow:
  "whereKey sid ip port proto cid intl (newNoteRow sid ip port proto cid intl t c u)"
  by (simp add: whereKey_def newNoteRow_def)

lemma newNoteRow_sel:
  "server_id (newNoteRow sid ip port proto cid intl t c u) = sid"
  "host_ip (newNoteRow sid ip port proto cid intl t c u) = ip"
  "host_port (newNoteRow sid ip port proto cid intl t c u) = port"
  "protocol (newNoteRow sid ip port proto cid intl t c u) = proto"
  "container_id (newNoteRow sid ip port proto cid intl t c u) = cid"
  "internal (newNoteRow sid ip port proto cid intl t c u) = intl"
  "note_text (newNoteRow sid ip port proto cid intl t c u) = t"
  by (simp_all add: newNoteRow_def)

lemma whereKey_note_update:
  "whereKey sid ip port proto cid intl (r\<lparr>note_text := t, note_updated_at := u\<rparr>)
     = whereKey sid ip port proto cid intl r"
  by (simp add: whereKey_def)

lemma saveNote_cases:
  assumes srv: "rq_server_id rq \<in> set (servers (db app))" and port: "rq_host_port rq = Some port"
  defines "hit \<equiv> whereKey (rq_server_id rq) (rq_host_ip rq) port (rq_protocol rq)
                     (orNull (rq_container_id rq)) (rq_internal rq)"
  defines "t \<equiv> noteTrimmed (rq_note rq)"
  shows "saveNote now rq app =
     (respond 200 (Saved ''Note saved successfully''),
      if \<exists>r \<in> set (notes_tbl (db app)). hit r then
        (if t = [] then setNotes app (deleteWhere hit (notes_tbl (db app)))
         else setNotes app (updateWhere hit (\<lambda>r. r\<lparr>note_text := t, note_updated_at := Some now\<rparr>)
                              (notes_tbl (db app))))
      else if t \<noteq> [] then
        setNotes app (notes_tbl (db app) @
          [newNoteRow (rq_server_id rq) (rq_host_ip rq) port (rq_protocol rq)
             (orNull (rq_container_id rq)) (rq_internal rq) t now None])
      else app)"
proof (cases "\<exists>r \<in> set (notes_tbl (db app)). hit r")
  case True
  then show ?thesis
    unfolding hit_def t_def by (simp add: saveNote_def port Let_def)
next
  case False
  have ins: "insertRow (servers (db app))
          (newNoteRow (rq_server_id rq) (rq_host_ip rq) port (rq_protocol rq)
             (orNull (rq_container_id rq)) (rq_internal rq) t now None) (notes_tbl (db app))
        = Inr (notes_tbl (db app) @
          [newNoteRow (rq_server_id rq) (rq_host_ip rq) port (rq_protocol rq)
             (orNull (rq_container_id rq)) (rq_internal rq) t now None])"
    using False srv unfolding hit_def
    by (intro insertRow_fresh [where sid = "rq_server_id rq"]) (simp_all add: newNoteRow_sel)
  from False ins show ?thesis
    unfolding hit_def t_def by (simp add: saveNote_def port Let_def)
qed

lemma notes_setNotes: "notes_tbl (db (setNotes app rows)) = rows"
  by (simp add: setNotes_def)

lemma readNote_rows:
  "sid \<noteq> [] \<Longrightarrow> readNote sid ip port proto cid intl app =
     map note_text (filter (whereKey sid ip port proto cid intl) (notes_tbl (db app)))"
proof -
  have "filter (whereKey sid ip port proto cid intl) (filter (\<lambda>r. server_id r = sid) rows)
          = filter (whereKey sid ip port proto cid intl) rows" for rows :: "NoteRow list"
    by (induction rows) (auto simp: whereKey_def)
  then show "sid \<noteq> [] \<Longrightarrow> ?thesis"
    by (simp add: readNote_def getNotes_def noteRowsOf_def respond_def)
qed

lemma read_after_update:
  "map note_text (filter (whereKey sid ip port proto cid intl)
     (updateWhere (whereKey sid ip port proto cid intl)
        (\<lambda>r. r\<lparr>note_text := t, note_updated_at := u\<rparr>) rows))
   = replicate (length (filter (whereKey sid ip port proto cid intl) rows)) t"
  by (induction rows) (auto simp: updateWhere_def whereKey_note_update)

lemma read_after_delete:
  "filter P (deleteWhere P rows) = []"
  by (induction rows) (auto simp: deleteWhere_def)

text \<open>
  Claim C8, as amended. For a request that passes the validation, \<open>POST /api/notes\<close>
  answers 200 and follows this case split on the identity key, with the text trimmed: an
  empty text deletes the rows of the key, and nothing can be read back; an empty text where
  no row exists changes nothing; a non-empty text where a row exists sets the row's text and
  \<open>updated_at\<close>; a non-empty text where no row exists appends a new row created now. After
  a write whose trimmed text is non-empty, reading the key returns that trimmed text and
  nothing else.
\<close>

theorem upsertNote_case_split:
  assumes "validateNoteInput rq (db app) = None" and "rq_host_port rq = Some port"
  shows
   "status (fst (postNotes now rq app)) = 200 \<and>
    (noteTrimmed (rq_note rq) = [] \<longrightarrow>
       notes_tbl (db (snd (postNotes now rq app))) =
         deleteWhere (whereKey (rq_server_id rq) (rq_host_ip rq) port (rq_protocol rq)
                        (orNull (rq_container_id rq)) (rq_internal rq)) (notes_tbl (db app)) \<and>
       readNote (rq_server_id rq) (rq_host_ip rq) port (rq_protocol rq)
         (orNull (rq_container_id rq)) (rq_internal rq) (snd (postNotes now rq app)) = []) \<and>
    (noteTrimmed (rq_note rq) = [] \<and>
     readNote (rq_server_id rq) (rq_host_ip rq) port (rq_protocol rq)
       (orNull (rq_container_id rq)) (rq_internal rq) app = [] \<longrightarrow>
       snd (postNotes now rq app) = app) \<and>
    (noteTrimmed (rq_note rq) \<noteq> [] \<and>
     readNote (rq_server_id rq) (rq_host_ip rq) port (rq_protocol rq)
       (orNull (rq_container_id rq)) (rq_internal rq) app \<noteq> [] \<longrightarrow>
       notes_tbl (db (snd (postNotes now rq app))) =
         updateWhere (whereKey (rq_server_id rq) (rq_host_ip rq) port (rq_protocol rq)
                        (orNull (rq_container_id rq)) (rq_internal rq))
           (\<lambda>r. r\<lparr>note_text := noteTrimmed (rq_note rq), note_updated_at := Some now\<rparr>)
           (notes_tbl (db app))) \<and>
    (noteTrimmed (rq_note rq) \<noteq> [] \<and>
     readNote (rq_server_id rq) (rq_host_ip rq) port (rq_protocol rq)
       (orNull (rq_container_id rq)) (rq_internal rq) app = [] \<longrightarrow>
       notes_tbl (db (snd (postNotes now rq app))) =
         notes_tbl (db app) @
           [newNoteRow (rq_server_id rq) (rq_host_ip rq) port (rq_protocol rq)
              (orNull (rq_container_id rq)) (rq_internal rq) (noteTrimmed (rq_note rq)) now None]) \<and>
    (noteTrimmed (rq_note rq) \<noteq> [] \<longrightarrow>
       readNote (rq_server_id rq) (rq_host_ip rq) port (rq_protocol rq)
         (orNull (rq_container_id rq)) (rq_internal rq) (snd (postNotes now rq app)) \<noteq> [] \<and>
       set (readNote (rq_server_id rq) (rq_host_ip rq) port (rq_protocol rq)
         (orNull (rq_container_id rq)) (rq_internal rq) (snd (postNotes now rq app)))
         = {noteTrimmed (rq_note rq)})"
proof -
  let ?hit = "whereKey (rq_server_id rq) (rq_host_ip rq) port (rq_protocol rq)
                (orNull (rq_container_id rq)) (rq_internal rq)"
  let ?rows = "notes_tbl (db app)"
  let ?t = "noteTrimmed (rq_note rq)"
  from assms(1) have srv: "rq_server_id rq \<in> set (servers (db app))"
    by (simp add: validateNoteInput_passes)
  then have sid: "rq_server_id rq \<noteq> []"
    using assms(1) by (auto simp: validateNoteInput_def split: if_splits)
  have post: "postNotes now rq app = saveNote now rq app"
    using assms(1) by (simp add: postNotes_def)
  note sc = saveNote_cases [OF srv assms(2), of now]
  have rd: "readNote (rq_server_id rq) (rq_host_ip rq) port (rq_protocol rq)
       (orNull (rq_container_id rq)) (rq_internal rq) a = map note_text (filter ?hit (notes_tbl (db a)))"
    for a by (rule readNote_rows [OF sid])
  have ex: "(map note_text (filter ?hit ?rows) = []) = (\<not> (\<exists>r \<in> set ?rows. ?hit r))"
    by (auto simp: filter_empty_conv)
  show ?thesis
  proof (cases "\<exists>r \<in> set ?rows. ?hit r")
    case True
    then have len: "filter ?hit ?rows \<noteq> []" by (auto simp: filter_empty_conv)
    show ?thesis
      unfolding post sc rd ex using True len
      by (auto simp: respond_def notes_setNotes read_after_delete read_after_update)
  next
    case False
    then have none: "filter ?hit ?rows = []" by (auto simp: filter_empty_conv)
    have del: "deleteWhere ?hit ?rows = ?rows"
      using False by (auto simp: deleteWhere_def filter_id_conv)
    show ?thesis
      unfolding post sc rd ex using False none del
      by (auto simp: respond_def notes_setNotes whereKey_newNoteRow newNoteRow_sel)
  qed
qed


theorem upsertNote_case_split_witness:
  "validateNoteInput ((request ''local'' ''0.0.0.0'' 80)\<lparr>rq_note := Some ''hello''\<rparr>) (db warmApp) = None \<and>
   rq_host_port ((request ''local'' ''0.0.0.0'' 80)\<lparr>rq_note := Some ''hello''\<rparr>) = Some 80 \<and>
   noteTrimmed (Some ''hello'') = ''hello'' \<and>
   readNote ''local'' ''0.0.0.0'' 80 ''tcp'' None False warmApp = [] \<and>
   status (fst (postNotes 1500 ((request ''local'' ''0.0.0.0'' 80)\<lparr>rq_note := Some ''hello''\<rparr>) warmApp)) = 200 \<and>
   notes_tbl (db (snd (postNotes 1500 ((request ''local'' ''0.0.0.0'' 80)\<lparr>rq_note := Some ''hello''\<rparr>) warmApp)))
     = [newNoteRow ''local'' ''0.0.0.0'' 80 ''tcp'' None False ''hello'' 1500 None] \<and>
   set (readNote ''local'' ''0.0.0.0'' 80 ''tcp'' None False
         (snd (postNotes 1500 ((request ''local'' ''0.0.0.0'' 80)\<lparr>rq_note := Some ''hello''\<rparr>) warmApp)))
     = {''hello''}"
proof -
  let ?rq = "(request ''local'' ''0.0.0.0'' 80)\<lparr>rq_note := Some ''hello''\<rparr>"
  have v: "validateNoteInput ?rq (db warmApp) = None" by code_simp
  have p: "rq_host_port ?rq = Some 80" by (simp add: request_def)
  have t: "noteTrimmed (Some ''hello'') = ''hello''" by code_simp
  have r: "readNote ''local'' ''0.0.0.0'' 80 ''tcp'' None False warmApp = []" by code_simp
  have f: "rq_server_id ?rq = ''local''" "rq_host_ip ?rq = ''0.0.0.0''" "rq_protocol ?rq = ''tcp''"
    "orNull (rq_container_id ?rq) = None" "rq_internal ?rq = False" "rq_note ?rq = Some ''hello''"
    "notes_tbl (db warmApp) = []"
    by (simp_all add: request_def orNull_def warmApp_def emptyDb_def)
  show ?thesis
    using upsertNote_case_split [OF v p, of 1500] v p t r
    by (simp add: f request_def orNull_def)
qed

text \<open>
  The claim C8 as it is worded, "a write of non-empty text followed by a read returns
  exactly that text", fails for a text with surrounding white space: the stored text is the
  trimmed one.
\<close>

theorem upsertNote_padded_text_counterexample:
  "status (fst (postNotes 1500 ((request ''local'' ''0.0.0.0'' 80)\<lparr>rq_note := Some '' hi ''\<rparr>) warmApp)) = 200 \<and>
   readNote ''local'' ''0.0.0.0'' 80 ''tcp'' None False
     (snd (postNotes 1500 ((request ''local'' ''0.0.0.0'' 80)\<lparr>rq_note := Some '' hi ''\<rparr>) warmApp))
     = [''hi''] \<and>
   ''hi'' \<noteq> '' hi ''"
  by code_simp



section \<open>Verification: wildcard mirroring of custom names\<close>

lemma whereKey_name_update:
  "whereKey sid ip port proto cid intl
     (r\<lparr>custom_name := n, original_name := og, cn_updated_at := u\<rparr>)
     = whereKey sid ip port proto cid intl r"
  by (simp add: whereKey_def)

lemma whereKey_newNameRow:
  "whereKey sid' ip' port' proto' cid' intl' (newNameRow sid ip port proto cid intl n og now)
     = (sid = sid' \<and> ip = ip' \<and> port = port' \<and> proto = proto' \<and> cid = cid' \<and> intl = intl')"
  by (auto simp: whereKey_def newNameRow_def)

lemma newNameRow_names:
  "custom_name (newNameRow sid ip port proto cid intl n og now) = n"
  "original_name (newNameRow sid ip port proto cid intl n og now) = og"
  "server_id (newNameRow sid ip port proto cid intl n og now) = sid"
  "container_id (newNameRow sid ip port proto cid intl n og now) = cid"
  by (simp_all add: newNameRow_def)

text \<open>Writing a name under a key whose container is NULL, on a known server.\<close>

lemma upsertName_null_container:
  assumes "sid \<in> set srv"
  shows "upsertName srv sid ip port proto None intl (Some n) orig now rows =
     Inr (\<exists>r \<in> set rows. whereKey sid ip port proto None intl r,
          if \<exists>r \<in> set rows. whereKey sid ip port proto None intl r then
            updateWhere (whereKey sid ip port proto None intl)
              (\<lambda>r. r\<lparr>custom_name := n, original_name := orNull orig, cn_updated_at := now\<rparr>) rows
          else rows @ [newNameRow sid ip port proto None intl n (orNull orig) now])"
  using assms
  by (simp add: upsertName_def insertRow_null_container newNameRow_names)

lemma mirrorName_known_server:
  assumes "sid \<in> set srv"
  shows "mirrorName srv sid sib port proto n orig now rows =
          (if \<exists>r \<in> set rows. whereKey sid sib port proto None False r then
            updateWhere (whereKey sid sib port proto None False)
              (\<lambda>r. r\<lparr>custom_name := n, original_name := orNull orig, cn_updated_at := now\<rparr>) rows
          else rows @ [newNameRow sid sib port proto None False n (orNull orig) now])"
  using assms
  by (simp add: mirrorName_def insertRow_null_container newNameRow_names)

lemma write_establishes:
  fixes rows :: "CustomNameRow list" and sid ip proto n :: string and port :: int
    and intl :: bool and og :: "string option" and now :: nat
  defines "k \<equiv> whereKey sid ip port proto None intl"
  defines "rows' \<equiv> (if \<exists>r \<in> set rows. k r then
            updateWhere k (\<lambda>r. r\<lparr>custom_name := n, original_name := og, cn_updated_at := now\<rparr>) rows
          else rows @ [newNameRow sid ip port proto None intl n og now])"
  shows "(\<exists>r \<in> set rows'. k r) \<and> (\<forall>r \<in> set rows'. k r \<longrightarrow> custom_name r = n \<and> original_name r = og)"
proof (cases "\<exists>r \<in> set rows. k r")
  case True
  let ?f = "\<lambda>r. r\<lparr>custom_name := n, original_name := og, cn_updated_at := now\<rparr>"
  from True obtain r0 where r0: "r0 \<in> set rows" "k r0" by blast
  have eq: "rows' = updateWhere k ?f rows" using True by (simp add: rows'_def)
  have "?f r0 \<in> set rows'"
    using r0 unfolding eq updateWhere_def by (auto simp: image_iff)
  moreover have "k (?f r0)" using r0(2) by (simp add: k_def whereKey_name_update)
  ultimately have "\<exists>r \<in> set rows'. k r" by blast
  moreover have "\<forall>r \<in> set rows'. k r \<longrightarrow> custom_name r = n \<and> original_name r = og"
    unfolding eq updateWhere_def by (auto simp: k_def whereKey_name_update)
  ultimately show ?thesis by blast
next
  case False
  then have eq: "rows' = rows @ [newNameRow sid ip port proto None intl n og now]"
    by (simp add: rows'_def)
  show ?thesis
    unfolding eq using False
    by (auto simp: k_def whereKey_newNameRow newNameRow_names)
qed

lemma write_preserves:
  fixes rows :: "CustomNameRow list" and sid ip proto n :: string and port :: int
    and intl :: bool and og :: "string option" and now :: nat
  defines "k \<equiv> whereKey sid ip port proto None intl"
  defines "rows' \<equiv> (if \<exists>r \<in> set rows. k r then
            updateWhere k (\<lambda>r. r\<lparr>custom_name := n, original_name := og, cn_updated_at := now\<rparr>) rows
          else rows @ [newNameRow sid ip port proto None intl n og now])"
  assumes "(\<exists>r \<in> set rows. whereKey sid1 ip1 port1 proto1 cid1 intl1 r)"
     and "(\<forall>r \<in> set rows. whereKey sid1 ip1 port1 proto1 cid1 intl1 r
              \<longrightarrow> custom_name r = n \<and> original_name r = og)"
  shows "(\<exists>r \<in> set rows'. whereKey sid1 ip1 port1 proto1 cid1 intl1 r) \<and>
         (\<forall>r \<in> set rows'. whereKey sid1 ip1 port1 proto1 cid1 intl1 r
              \<longrightarrow> custom_name r = n \<and> original_name r = og)"
proof -
  let ?f = "\<lambda>r. r\<lparr>custom_name := n, original_name := og, cn_updated_at := now\<rparr>"
  let ?k1 = "whereKey sid1 ip1 port1 proto1 cid1 intl1"
  from assms(3) obtain r0 where r0: "r0 \<in> set rows" "?k1 r0" by blast
  show ?thesis
  proof (cases "\<exists>r \<in> set rows. k r")
    case True
    then have eq: "rows' = updateWhere k ?f rows" by (simp add: rows'_def)
    have "(if k r0 then ?f r0 else r0) \<in> set rows'"
      using r0(1) unfolding eq updateWhere_def by (auto simp: image_iff)
    moreover have "?k1 (if k r0 then ?f r0 else r0)"
      using r0(2) by (simp add: whereKey_name_update)
    ultimately have ex: "\<exists>r \<in> set rows'. ?k1 r" by blast
    have "\<forall>r \<in> set rows'. ?k1 r \<longrightarrow> custom_name r = n \<and> original_name r = og"
      using assms(4) unfolding eq updateWhere_def
      by (auto simp: whereKey_name_update)
    with ex show ?thesis by blast
  next
    case False
    then have eq: "rows' = rows @ [newNameRow sid ip port proto None intl n og now]"
      by (simp add: rows'_def)
    show ?thesis using assms(3,4) unfolding eq by (auto simp: newNameRow_names)
  qed
qed

lemma saveCustomName_mirror:
  fixes now :: nat
  assumes port: "rq_host_port rq = Some port" and name: "rq_custom_name rq = Some n"
    and srv: "rq_server_id rq \<in> set (servers (db app))"
    and cid: "orNull (rq_container_id rq) = None" and intl: "\<not> rq_internal rq"
    and ip: "(rq_host_ip rq = ''0.0.0.0'' \<and> sibling = ''::'') \<or>
             (rq_host_ip rq = ''::'' \<and> sibling = ''0.0.0.0'')"
  defines "rows' \<equiv> custom_service_names (db (snd (saveCustomName now rq app)))"
  shows "status (fst (saveCustomName now rq app)) = 200 \<and>
     (\<exists>r \<in> set rows'. whereKey (rq_server_id rq) (rq_host_ip rq) port (rq_protocol rq) None False r) \<and>
     (\<exists>r \<in> set rows'. whereKey (rq_server_id rq) sibling port (rq_protocol rq) None False r) \<and>
     (\<forall>r \<in> set rows'.
         whereKey (rq_server_id rq) (rq_host_ip rq) port (rq_protocol rq) None False r \<or>
         whereKey (rq_server_id rq) sibling port (rq_protocol rq) None False r \<longrightarrow>
         custom_name r = n \<and> original_name r = orNull (rq_original_name rq))"
proof -
  let ?sid = "rq_server_id rq" and ?proto = "rq_protocol rq" and ?og = "orNull (rq_original_name rq)"
  let ?f = "\<lambda>r. r\<lparr>custom_name := n, original_name := ?og, cn_updated_at := now\<rparr>"
  let ?rows = "custom_service_names (db app)"
  let ?kp = "whereKey ?sid (rq_host_ip rq) port ?proto None False"
  let ?ks = "whereKey ?sid sibling port ?proto None False"
  define rows1 where "rows1 = (if \<exists>r \<in> set ?rows. ?kp r then updateWhere ?kp ?f ?rows
       else ?rows @ [newNameRow ?sid (rq_host_ip rq) port ?proto None False n ?og now])"
  define rows2 where "rows2 = (if \<exists>r \<in> set rows1. ?ks r then updateWhere ?ks ?f rows1
       else rows1 @ [newNameRow ?sid sibling port ?proto None False n ?og now])"
  have res: "saveCustomName now rq app =
     (respond 200 (Saved ''Custom service name saved successfully''),
      invalidatePorts (setNames app rows2))"
  proof -
    have intlF: "rq_internal rq = False" using intl by simp
    from ip show ?thesis
    proof
      assume a: "rq_host_ip rq = ''0.0.0.0'' \<and> sibling = ''::''"
      then have b: "rq_host_ip rq = ''0.0.0.0''" "sibling = ''::''" by simp_all
      show ?thesis
        unfolding rows2_def rows1_def saveCustomName_def Let_def port name cid intlF b
          upsertName_null_container [OF srv] mirrorName_known_server [OF srv]
        by simp
    next
      assume a: "rq_host_ip rq = ''::'' \<and> sibling = ''0.0.0.0''"
      then have b: "rq_host_ip rq = ''::''" "sibling = ''0.0.0.0''" by simp_all
      show ?thesis
        unfolding rows2_def rows1_def saveCustomName_def Let_def port name cid intlF b
          upsertName_null_container [OF srv] mirrorName_known_server [OF srv]
        by simp
    qed
  qed
  have r': "rows' = rows2"
    by (simp add: rows'_def res invalidatePorts_def setNames_def)
  have p1: "(\<exists>r \<in> set rows1. ?kp r) \<and>
            (\<forall>r \<in> set rows1. ?kp r \<longrightarrow> custom_name r = n \<and> original_name r = ?og)"
    unfolding rows1_def by (rule write_establishes)
  have s2: "(\<exists>r \<in> set rows2. ?ks r) \<and>
            (\<forall>r \<in> set rows2. ?ks r \<longrightarrow> custom_name r = n \<and> original_name r = ?og)"
    unfolding rows2_def by (rule write_establishes)
  have p2: "(\<exists>r \<in> set rows2. ?kp r) \<and>
            (\<forall>r \<in> set rows2. ?kp r \<longrightarrow> custom_name r = n \<and> original_name r = ?og)"
    unfolding rows2_def using p1 by (intro write_preserves) blast+
  from p2 s2 show ?thesis
    unfolding r' by (auto simp: res respond_def)
qed

lemma removeCustomName_wildcard:
  assumes port: "rq_host_port dq = Some port"
    and cid: "orNull (rq_container_id dq) = None" and intl: "\<not> rq_internal dq"
    and ip: "(rq_host_ip dq = ''0.0.0.0'' \<and> sibling = ''::'') \<or>
             (rq_host_ip dq = ''::'' \<and> sibling = ''0.0.0.0'')"
  shows "custom_service_names (db (snd (removeCustomName dq app))) =
           filter (\<lambda>r. \<not> whereKey (rq_server_id dq) (rq_host_ip dq) port (rq_protocol dq) None False r \<and>
                        \<not> whereKey (rq_server_id dq) sibling port (rq_protocol dq) None False r)
             (custom_service_names (db app)) \<and>
         status (fst (removeCustomName dq app)) =
           (if \<exists>r \<in> set (custom_service_names (db app)).
                 whereKey (rq_server_id dq) (rq_host_ip dq) port (rq_protocol dq) None False r \<or>
                 whereKey (rq_server_id dq) sibling port (rq_protocol dq) None False r
            then 200 else 404)"
proof -
  let ?rows = "custom_service_names (db app)"
  let ?kp = "whereKey (rq_server_id dq) (rq_host_ip dq) port (rq_protocol dq) None False"
  let ?ks = "whereKey (rq_server_id dq) sibling port (rq_protocol dq) None False"
  have intlF: "rq_internal dq = False" using intl by simp
  have cnt: "(0 < changes ?kp ?rows + changes ?ks (deleteWhere ?kp ?rows)) =
               (\<exists>r \<in> set ?rows. ?kp r \<or> ?ks r)"
    by (auto simp: changes_def deleteWhere_def filter_empty_conv)
  have flt: "deleteWhere ?ks (deleteWhere ?kp ?rows) = filter (\<lambda>r. \<not> ?kp r \<and> \<not> ?ks r) ?rows"
    by (simp add: deleteWhere_def)
  from ip show ?thesis
  proof
    assume a: "rq_host_ip dq = ''0.0.0.0'' \<and> sibling = ''::''"
    then have b: "rq_host_ip dq = ''0.0.0.0''" "sibling = ''::''" by simp_all
    show ?thesis
      using cnt flt unfolding removeCustomName_def Let_def port cid intlF b
      by (simp add: respond_def setNames_def invalidatePorts_def)
  next
    assume a: "rq_host_ip dq = ''::'' \<and> sibling = ''0.0.0.0''"
    then have b: "rq_host_ip dq = ''::''" "sibling = ''0.0.0.0''" by simp_all
    show ?thesis
      using cnt flt unfolding removeCustomName_def Let_def port cid intlF b
      by (simp add: respond_def setNames_def invalidatePorts_def)
  qed
qed

text \<open>The statements of the note and ignore handlers reach rows of the request's own
  host_ip only.\<close>

lemma filter_deleteWhere_other:
  "(\<And>r. Q r \<Longrightarrow> \<not> P r) \<Longrightarrow> filter Q (deleteWhere P rows) = filter Q rows"
  by (induction rows) (auto simp: deleteWhere_def)

lemma filter_updateWhere_other:
  "(\<And>r. P r \<Longrightarrow> \<not> Q r \<and> \<not> Q (f r)) \<Longrightarrow> filter Q (updateWhere P f rows) = filter Q rows"
  by (induction rows) (auto simp: updateWhere_def)

lemma insertRow_appends: "insertRow srv r rows = Inr rows' \<Longrightarrow> rows' = rows @ [r]"
  by (simp add: insertRow_def split: if_splits)

lemma saveNote_other_ips:
  "filter (\<lambda>r. host_ip r \<noteq> rq_host_ip rq) (notes_tbl (db (snd (saveNote now rq app)))) =
   filter (\<lambda>r. host_ip r \<noteq> rq_host_ip rq) (notes_tbl (db app))"
proof (cases "rq_host_port rq")
  case None
  then show ?thesis by (simp add: saveNote_def Let_def)
next
  case (Some port)
  let ?hit = "whereKey (rq_server_id rq) (rq_host_ip rq) port (rq_protocol rq)
                (orNull (rq_container_id rq)) (rq_internal rq)"
  let ?Q = "\<lambda>r :: NoteRow. host_ip r \<noteq> rq_host_ip rq"
  let ?new = "newNoteRow (rq_server_id rq) (rq_host_ip rq) port (rq_protocol rq)
                (orNull (rq_container_id rq)) (rq_internal rq) (noteTrimmed (rq_note rq)) now None"
  have d: "filter ?Q (deleteWhere ?hit rows) = filter ?Q rows" for rows :: "NoteRow list"
    by (rule filter_deleteWhere_other) (simp add: whereKey_def)
  have u: "filter ?Q (updateWhere ?hit (\<lambda>r. r\<lparr>note_text := t, note_updated_at := x\<rparr>) rows)
             = filter ?Q rows" for rows :: "NoteRow list" and t x
    by (rule filter_updateWhere_other) (simp add: whereKey_def)
  have i: "filter ?Q rows' = filter ?Q (notes_tbl (db app))"
    if "insertRow (servers (db app)) ?new (notes_tbl (db app)) = Inr rows'" for rows'
    using insertRow_appends [OF that] by (simp add: newNoteRow_sel)
  show ?thesis
    unfolding saveNote_def Let_def Some
    by (auto simp: notes_setNotes d u i split: sum.splits)
qed

lemma postNotes_other_ips:
  "filter (\<lambda>r. host_ip r \<noteq> rq_host_ip rq) (notes_tbl (db (snd (postNotes now rq app)))) =
   filter (\<lambda>r. host_ip r \<noteq> rq_host_ip rq) (notes_tbl (db app))"
  by (cases "validateNoteInput rq (db app)") (simp_all add: postNotes_def saveNote_other_ips)

lemma ignores_setIgnores: "ignores (db (setIgnores app rows)) = rows"
  by (simp add: setIgnores_def)

lemma saveIgnore_other_ips:
  "filter (\<lambda>r. host_ip r \<noteq> rq_host_ip rq) (ignores (db (snd (saveIgnore now rq app)))) =
   filter (\<lambda>r. host_ip r \<noteq> rq_host_ip rq) (ignores (db app))"
proof (cases "rq_host_port rq")
  case None
  then show ?thesis by (simp add: saveIgnore_def Let_def)
next
  case (Some port)
  let ?hit = "whereKey (rq_server_id rq) (rq_host_ip rq) port (rq_protocol rq)
                (orNull (rq_container_id rq)) (rq_internal rq)"
  let ?Q = "\<lambda>r :: IgnoreRow. host_ip r \<noteq> rq_host_ip rq"
  let ?new = "\<lparr>server_id = rq_server_id rq, host_ip = rq_host_ip rq,
                host_port = port, protocol = rq_protocol rq,
                container_id = orNull (rq_container_id rq),
                internal = rq_internal rq, ignore_created_at = now\<rparr>"
  have d: "filter ?Q (deleteWhere ?hit rows) = filter ?Q rows" for rows :: "IgnoreRow list"
    by (rule filter_deleteWhere_other) (simp add: whereKey_def)
  have i: "filter ?Q rows' = filter ?Q (ignores (db app))"
    if "insertRow (servers (db app)) ?new (ignores (db app)) = Inr rows'" for rows'
    using insertRow_appends [OF that] by simp
  show ?thesis
    unfolding saveIgnore_def Let_def Some
    by (auto simp: ignores_setIgnores d i split: sum.splits)
qed

lemma postIgnores_other_ips:
  "filter (\<lambda>r. host_ip r \<noteq> rq_host_ip rq) (ignores (db (snd (postIgnores now rq app)))) =
   filter (\<lambda>r. host_ip r \<noteq> rq_host_ip rq) (ignores (db app))"
  by (cases "validateIgnoreInput rq") (simp_all add: postIgnores_def saveIgnore_other_ips)


lemma applyNoteOps_other_ips:
  assumes "\<And>op r. op \<in> set ops \<Longrightarrow> Q r \<Longrightarrow> host_ip r \<noteq> op_host_ip op"
  shows "filter Q (fst (applyNoteOps now srv sid ops rows results)) = filter Q rows"
  using assms
proof (induction ops arbitrary: rows results)
  case Nil
  show ?case by simp
next
  case (Cons op ops)
  have IH: "filter Q (fst (applyNoteOps now srv sid ops rows' results')) = filter Q rows'"
    for rows' results'
    using Cons.IH Cons.prems by simp
  have q: "Q r \<Longrightarrow> host_ip r \<noteq> op_host_ip op" for r
    using Cons.prems by simp
  show ?case
  proof (cases "op_host_port op")
    case None
    then show ?thesis by (simp add: IH)
  next
    case (Some port)
    let ?hit = "whereKey sid (op_host_ip op) port (op_protocol op)
                  (orNull (op_container_id op)) (op_internal op)"
    have d: "filter Q (deleteWhere ?hit rows) = filter Q rows"
      by (rule filter_deleteWhere_other) (use q in \<open>auto simp: whereKey_def\<close>)
    have u: "filter Q (updateWhere ?hit (\<lambda>r. r\<lparr>note_text := t, note_updated_at := x\<rparr>) rows)
               = filter Q rows" for t x
    proof (rule filter_updateWhere_other)
      fix r :: NoteRow
      assume "?hit r"
      then have h: "host_ip r = op_host_ip op" by (simp add: whereKey_def)
      show "\<not> Q r \<and> \<not> Q (r\<lparr>note_text := t, note_updated_at := x\<rparr>)"
        using q [of r] q [of "r\<lparr>note_text := t, note_updated_at := x\<rparr>"] h by auto
    qed
    have i: "filter Q rows' = filter Q rows"
      if "insertRow srv (newNoteRow sid (op_host_ip op) port (op_protocol op)
            (orNull (op_container_id op)) (op_internal op) t now x) rows = Inr rows'"
      for rows' t x
      using insertRow_appends [OF that]
        q [of "newNoteRow sid (op_host_ip op) port (op_protocol op)
            (orNull (op_container_id op)) (op_internal op) t now x"]
      by (auto simp: newNoteRow_sel)
    show ?thesis
      unfolding applyNoteOps.simps Some Let_def
      by (auto simp: IH d u i split: sum.splits)
  qed
qed


lemma batchNotes_other_ips:
  "filter (\<lambda>r. host_ip r \<notin> op_host_ip ` set ops)
     (notes_tbl (db (snd (batchNotes now sid (Some ops) app)))) =
   filter (\<lambda>r. host_ip r \<notin> op_host_ip ` set ops) (notes_tbl (db app))"
proof (cases "sid = []")
  case True
  then show ?thesis by (simp add: batchNotes_def)
next
  case False
  obtain rows results where
    a: "applyNoteOps now (servers (db app)) sid ops (notes_tbl (db app)) [] = (rows, results)"
    by (cases "applyNoteOps now (servers (db app)) sid ops (notes_tbl (db app)) []")
  have "filter (\<lambda>r. host_ip r \<notin> op_host_ip ` set ops)
          (fst (applyNoteOps now (servers (db app)) sid ops (notes_tbl (db app)) [])) =
        filter (\<lambda>r. host_ip r \<notin> op_host_ip ` set ops) (notes_tbl (db app))"
    by (rule applyNoteOps_other_ips) auto
  then show ?thesis
    using False by (simp add: batchNotes_def a notes_setNotes invalidatePorts_def)
qed

text \<open>
  Claim C3, as amended. A custom-name write through \<open>POST /api/custom-service-names\<close>
  that passes the validation, names a known server and carries a name, whose target has no
  container_id, is not internal and has host_ip exactly 0.0.0.0 or ::, answers 200 and leaves
  a row for the target and a row for the sibling wildcard address, with the same server,
  port and protocol, container_id NULL and internal 0, all of them carrying the written
  name. A \<open>DELETE /api/custom-service-names\<close> that passes its validation, on such a
  target, removes exactly the rows of the target and of the sibling wildcard address, and
  answers 200 if there was such a row and 404 if not. Note and ignore writes are not
  mirrored: \<open>POST /api/notes\<close> and \<open>POST /api/ignores\<close> leave the rows of every
  host_ip other than that of the request as they were, and \<open>POST /api/notes/batch\<close>
  those of every host_ip that none of its operations names.
\<close>

theorem custom_name_wildcard_mirror:
  "(validateCustomServiceNameInput rq = None \<and>
    rq_host_port rq = Some port \<and> rq_custom_name rq = Some n \<and>
    rq_server_id rq \<in> set (servers (db app)) \<and>
    orNull (rq_container_id rq) = None \<and> \<not> rq_internal rq \<and>
    ((rq_host_ip rq = ''0.0.0.0'' \<and> sibling = ''::'') \<or>
     (rq_host_ip rq = ''::'' \<and> sibling = ''0.0.0.0'')) \<longrightarrow>
      status (fst (postCustomServiceNames now rq app)) = 200 \<and>
      (\<exists>r \<in> set (custom_service_names (db (snd (postCustomServiceNames now rq app)))).
          whereKey (rq_server_id rq) (rq_host_ip rq) port (rq_protocol rq) None False r) \<and>
      (\<exists>r \<in> set (custom_service_names (db (snd (postCustomServiceNames now rq app)))).
          whereKey (rq_server_id rq) sibling port (rq_protocol rq) None False r) \<and>
      (\<forall>r \<in> set (custom_service_names (db (snd (postCustomServiceNames now rq app)))).
          whereKey (rq_server_id rq) (rq_host_ip rq) port (rq_protocol rq) None False r \<or>
          whereKey (rq_server_id rq) sibling port (rq_protocol rq) None False r \<longrightarrow>
          custom_name r = n \<and> original_name r = orNull (rq_original_name rq))) \<and>
   (validateCustomServiceNameDeleteInput dq = None \<and>
    rq_host_port dq = Some dport \<and>
    orNull (rq_container_id dq) = None \<and> \<not> rq_internal dq \<and>
    ((rq_host_ip dq = ''0.0.0.0'' \<and> dsibling = ''::'') \<or>
     (rq_host_ip dq = ''::'' \<and> dsibling = ''0.0.0.0'')) \<longrightarrow>
      custom_service_names (db (snd (deleteCustomServiceNames dq app))) =
        filter (\<lambda>r. \<not> whereKey (rq_server_id dq) (rq_host_ip dq) dport (rq_protocol dq) None False r \<and>
                     \<not> whereKey (rq_server_id dq) dsibling dport (rq_protocol dq) None False r)
          (custom_service_names (db app)) \<and>
      status (fst (deleteCustomServiceNames dq app)) =
        (if \<exists>r \<in> set (custom_service_names (db app)).
              whereKey (rq_server_id dq) (rq_host_ip dq) dport (rq_protocol dq) None False r \<or>
              whereKey (rq_server_id dq) dsibling dport (rq_protocol dq) None False r
         then 200 else 404)) \<and>
   filter (\<lambda>r. host_ip r \<noteq> rq_host_ip nq) (notes_tbl (db (snd (postNotes now nq app)))) =
     filter (\<lambda>r. host_ip r \<noteq> rq_host_ip nq) (notes_tbl (db app)) \<and>
   filter (\<lambda>r. host_ip r \<noteq> rq_host_ip iq) (ignores (db (snd (postIgnores now iq app)))) =
     filter (\<lambda>r. host_ip r \<noteq> rq_host_ip iq) (ignores (db app)) \<and>
   filter (\<lambda>r. host_ip r \<notin> op_host_ip ` set ops)
       (notes_tbl (db (snd (batchNotes now sid (Some ops) app)))) =
     filter (\<lambda>r. host_ip r \<notin> op_host_ip ` set ops) (notes_tbl (db app))"
proof (intro conjI impI)
  assume a: "validateCustomServiceNameInput rq = None \<and>
    rq_host_port rq = Some port \<and> rq_custom_name rq = Some n \<and>
    rq_server_id rq \<in> set (servers (db app)) \<and>
    orNull (rq_container_id rq) = None \<and> \<not> rq_internal rq \<and>
    ((rq_host_ip rq = ''0.0.0.0'' \<and> sibling = ''::'') \<or>
     (rq_host_ip rq = ''::'' \<and> sibling = ''0.0.0.0''))"
  then have v: "validateCustomServiceNameInput rq = None"
    and p: "rq_host_port rq = Some port" and n: "rq_custom_name rq = Some n"
    and s: "rq_server_id rq \<in> set (servers (db app))"
    and c: "orNull (rq_container_id rq) = None" and i: "\<not> rq_internal rq"
    and ip: "(rq_host_ip rq = ''0.0.0.0'' \<and> sibling = ''::'') \<or>
             (rq_host_ip rq = ''::'' \<and> sibling = ''0.0.0.0'')"
    by simp_all
  have post: "postCustomServiceNames now rq app = saveCustomName now rq app"
    using v by (simp add: postCustomServiceNames_def)
  note m = saveCustomName_mirror [OF p n s c i ip, of now, unfolded post [symmetric]]
  show "status (fst (postCustomServiceNames now rq app)) = 200"
    using m by blast
  show "\<exists>r \<in> set (custom_service_names (db (snd (postCustomServiceNames now rq app)))).
          whereKey (rq_server_id rq) (rq_host_ip rq) port (rq_protocol rq) None False r"
    using m by blast
  show "\<exists>r \<in> set (custom_service_names (db (snd (postCustomServiceNames now rq app)))).
          whereKey (rq_server_id rq) sibling port (rq_protocol rq) None False r"
    using m by blast
  show "\<forall>r \<in> set (custom_service_names (db (snd (postCustomServiceNames now rq app)))).
          whereKey (rq_server_id rq) (rq_host_ip rq) port (rq_protocol rq) None False r \<or>
          whereKey (rq_server_id rq) sibling port (rq_protocol rq) None False r \<longrightarrow>
          custom_name r = n \<and> original_name r = orNull (rq_original_name rq)"
    using m by blast
next
  assume a: "validateCustomServiceNameDeleteInput dq = None \<and>
    rq_host_port dq = Some dport \<and>
    orNull (rq_container_id dq) = None \<and> \<not> rq_internal dq \<and>
    ((rq_host_ip dq = ''0.0.0.0'' \<and> dsibling = ''::'') \<or>
     (rq_host_ip dq = ''::'' \<and> dsibling = ''0.0.0.0''))"
  then have v: "validateCustomServiceNameDeleteInput dq = None"
    and p: "rq_host_port dq = Some dport"
    and c: "orNull (rq_container_id dq) = None" and i: "\<not> rq_internal dq"
    and ip: "(rq_host_ip dq = ''0.0.0.0'' \<and> dsibling = ''::'') \<or>
             (rq_host_ip dq = ''::'' \<and> dsibling = ''0.0.0.0'')"
    by simp_all
  have del: "deleteCustomServiceNames dq app = removeCustomName dq app"
    using v by (simp add: deleteCustomServiceNames_def)
  note m = removeCustomName_wildcard [OF p c i ip, of app, unfolded del [symmetric]]
  show "custom_service_names (db (snd (deleteCustomServiceNames dq app))) =
        filter (\<lambda>r. \<not> whereKey (rq_server_id dq) (rq_host_ip dq) dport (rq_protocol dq) None False r \<and>
                     \<not> whereKey (rq_server_id dq) dsibling dport (rq_protocol dq) None False r)
          (custom_service_names (db app))"
    using m by (rule conjunct1)
  show "status (fst (deleteCustomServiceNames dq app)) =
        (if \<exists>r \<in> set (custom_service_names (db app)).
              whereKey (rq_server_id dq) (rq_host_ip dq) dport (rq_protocol dq) None False r \<or>
              whereKey (rq_server_id dq) dsibling dport (rq_protocol dq) None False r
         then 200 else 404)"
    using m by (rule conjunct2)
next
  show "filter (\<lambda>r. host_ip r \<noteq> rq_host_ip nq) (notes_tbl (db (snd (postNotes now nq app)))) =
     filter (\<lambda>r. host_ip r \<noteq> rq_host_ip nq) (notes_tbl (db app))"
    by (rule postNotes_other_ips)
next
  show "filter (\<lambda>r. host_ip r \<noteq> rq_host_ip iq) (ignores (db (snd (postIgnores now iq app)))) =
     filter (\<lambda>r. host_ip r \<noteq> rq_host_ip iq) (ignores (db app))"
    by (rule postIgnores_other_ips)
next
  show "filter (\<lambda>r. host_ip r \<notin> op_host_ip ` set ops)
       (notes_tbl (db (snd (batchNotes now sid (Some ops) app)))) =
     filter (\<lambda>r. host_ip r \<notin> op_host_ip ` set ops) (notes_tbl (db app))"
    by (rule batchNotes_other_ips)
qed

theorem custom_name_wildcard_mirror_witness:
  "validateCustomServiceNameInput
     ((request ''local'' ''0.0.0.0'' 80)\<lparr>rq_custom_name := Some ''web''\<rparr>) = None \<and>
   ''local'' \<in> set (servers (db warmApp)) \<and>
   status (fst (postCustomServiceNames 1500
     ((request ''local'' ''0.0.0.0'' 80)\<lparr>rq_custom_name := Some ''web''\<rparr>) warmApp)) = 200 \<and>
   custom_service_names (db (snd (postCustomServiceNames 1500
     ((request ''local'' ''0.0.0.0'' 80)\<lparr>rq_custom_name := Some ''web''\<rparr>) warmApp))) =
     [newNameRow ''local'' ''0.0.0.0'' 80 ''tcp'' None False ''web'' None 1500,
      newNameRow ''local'' ''::'' 80 ''tcp'' None False ''web'' None 1500] \<and>
   validateCustomServiceNameDeleteInput (request ''local'' ''::'' 80) = None \<and>
   rq_custom_name (request ''local'' ''::'' 80) = None \<and>
   custom_service_names (db (snd (deleteCustomServiceNames (request ''local'' ''::'' 80)
     (snd (postCustomServiceNames 1500
        ((request ''local'' ''0.0.0.0'' 80)\<lparr>rq_custom_name := Some ''web''\<rparr>) warmApp))))) = [] \<and>
   status (fst (deleteCustomServiceNames (request ''local'' ''::'' 80)
     (snd (postCustomServiceNames 1500
        ((request ''local'' ''0.0.0.0'' 80)\<lparr>rq_custom_name := Some ''web''\<rparr>) warmApp)))) = 200 \<and>
   status (fst (deleteCustomServiceNames (request ''local'' ''::'' 80) warmApp)) = 404"
proof -
  let ?rq = "(request ''local'' ''0.0.0.0'' 80)\<lparr>rq_custom_name := Some ''web''\<rparr>"
  let ?dq = "request ''local'' ''::'' 80"
  let ?app = "snd (postCustomServiceNames 1500 ?rq warmApp)"
  have v: "validateCustomServiceNameInput ?rq = None" by code_simp
  have p: "rq_host_port ?rq = Some 80" and n: "rq_custom_name ?rq = Some ''web''"
    and c: "orNull (rq_container_id ?rq) = None" and i: "\<not> rq_internal ?rq"
    and a: "(rq_host_ip ?rq = ''0.0.0.0'' \<and> ''::'' = ''::'') \<or>
            (rq_host_ip ?rq = ''::'' \<and> ''::'' = ''0.0.0.0'')"
    by (simp_all add: request_def orNull_def)
  have s: "rq_server_id ?rq \<in> set (servers (db warmApp))"
    by (simp add: request_def warmApp_def emptyDb_def)
  have e: "custom_service_names (db ?app) =
     [newNameRow ''local'' ''0.0.0.0'' 80 ''tcp'' None False ''web'' None 1500,
      newNameRow ''local'' ''::'' 80 ''tcp'' None False ''web'' None 1500]"
    by code_simp
  have s': "''local'' \<in> set (servers (db warmApp))"
    by (simp add: warmApp_def emptyDb_def)
  have e0: "custom_service_names (db warmApp) = []"
    by (simp add: warmApp_def emptyDb_def)
  have dv: "validateCustomServiceNameDeleteInput ?dq = None" by code_simp
  have dp: "rq_host_port ?dq = Some 80" and dn: "rq_custom_name ?dq = None"
    and dc: "orNull (rq_container_id ?dq) = None" and di: "\<not> rq_internal ?dq"
    and da: "(rq_host_ip ?dq = ''0.0.0.0'' \<and> ''0.0.0.0'' = ''::'') \<or>
             (rq_host_ip ?dq = ''::'' \<and> ''0.0.0.0'' = ''0.0.0.0'')"
    and ds: "rq_server_id ?dq = ''local''" and dr: "rq_protocol ?dq = ''tcp''"
    and dh: "rq_host_ip ?dq = ''::''"
    by (simp_all add: request_def orNull_def)
  have k: "whereKey ''local'' ''0.0.0.0'' 80 ''tcp'' None False
             (newNameRow ''local'' ''0.0.0.0'' 80 ''tcp'' None False ''web'' None 1500)"
          "whereKey ''local'' ''::'' 80 ''tcp'' None False
             (newNameRow ''local'' ''::'' 80 ''tcp'' None False ''web'' None 1500)"
    by (simp_all add: whereKey_newNameRow)
  have post: "status (fst (postCustomServiceNames 1500 ?rq warmApp)) = 200"
    using custom_name_wildcard_mirror [where rq = ?rq and port = 80 and n = "''web''"
        and app = warmApp and sibling = "''::''" and now = 1500]
      v p n s c i a
    by blast
  have del: "custom_service_names (db (snd (deleteCustomServiceNames ?dq ?app))) = [] \<and>
             status (fst (deleteCustomServiceNames ?dq ?app)) = 200"
    using custom_name_wildcard_mirror [where dq = ?dq and dport = 80
        and app = ?app and dsibling = "''0.0.0.0''"]
      dv dp dc di da
    unfolding e ds dr dh
    by (simp add: k)
  have del0: "status (fst (deleteCustomServiceNames ?dq warmApp)) = 404"
    using custom_name_wildcard_mirror [where dq = ?dq and dport = 80
        and app = warmApp and dsibling = "''0.0.0.0''"]
      dv dp dc di da
    unfolding e0 ds dr dh
    by simp
  show ?thesis
    using post del del0 v s' e dv dn by simp
qed


text \<open>
  The claim C3 as it is worded, for every annotation write and for notes in particular,
  fails: a note written for 0.0.0.0 leaves no row for ::, and an ignore written for ::
  leaves no row for 0.0.0.0.
\<close>

theorem note_write_not_mirrored_counterexample:
  "status (fst (postNotes 1500
      ((request ''local'' ''0.0.0.0'' 80)\<lparr>rq_note := Some ''reverse proxy''\<rparr>) warmApp)) = 200 \<and>
   map host_ip (notes_tbl (db (snd (postNotes 1500
      ((request ''local'' ''0.0.0.0'' 80)\<lparr>rq_note := Some ''reverse proxy''\<rparr>) warmApp))))
     = [''0.0.0.0''] \<and>
   readNote ''local'' ''::'' 80 ''tcp'' None False (snd (postNotes 1500
      ((request ''local'' ''0.0.0.0'' 80)\<lparr>rq_note := Some ''reverse proxy''\<rparr>) warmApp)) = [] \<and>
   status (fst (postIgnores 1500
      ((request ''local'' ''::'' 80)\<lparr>rq_ignored := Some True\<rparr>) warmApp)) = 200 \<and>
   map host_ip (ignores (db (snd (postIgnores 1500
      ((request ''local'' ''::'' 80)\<lparr>rq_ignored := Some True\<rparr>) warmApp)))) = [''::'']"
  by code_simp

section \<open>Verification: invalidation of the ports cache\<close>

lemma cacheGet_cacheDelete: "cacheGet (cacheDelete c key) key now = None"
proof -
  have "map_of (filter (\<lambda>e. fst e \<noteq> key) c) key = None"
    by (auto simp: map_of_eq_None_iff)
  then show ?thesis by (simp add: cacheGet_def cacheDelete_def)
qed

lemma invalidatePorts_miss:
  "cacheGet (responseCache (invalidatePorts app)) portsCacheKey now = None"
  by (simp add: invalidatePorts_def cacheGet_cacheDelete)

text \<open>The four handlers that invalidate: a 200 answer comes with the cache entry removed.\<close>

lemma validateNameKey_status: "validateNameKey rq = Some r \<Longrightarrow> status r = 400"
  by (auto simp: validateNameKey_def respond_def split: if_splits)

lemma validateCustomServiceNameInput_status:
  "validateCustomServiceNameInput rq = Some r \<Longrightarrow> status r = 400"
  by (auto simp: validateCustomServiceNameInput_def respond_def
        dest: validateNameKey_status split: option.splits if_splits)

lemma validateCustomServiceNameDeleteInput_status:
  "validateCustomServiceNameDeleteInput rq = Some r \<Longrightarrow> status r = 400"
  by (auto simp: validateCustomServiceNameDeleteInput_def respond_def
        dest: validateNameKey_status split: option.splits if_splits)

lemma saveCustomName_shape:
  "(status (fst (saveCustomName t rq app)) = 500 \<and> snd (saveCustomName t rq app) = app) \<or>
   (\<exists>rows. saveCustomName t rq app =
      (respond 200 (Saved ''Custom service name saved successfully''),
       invalidatePorts (setNames app rows)))"
proof (cases "rq_host_port rq")
  case None
  then show ?thesis by (simp add: saveCustomName_def Let_def respond_def)
next
  case (Some port)
  show ?thesis
  proof (cases "upsertName (servers (db app)) (rq_server_id rq) (rq_host_ip rq) port
                  (rq_protocol rq) (orNull (rq_container_id rq)) (rq_internal rq)
                  (rq_custom_name rq) (rq_original_name rq) t (custom_service_names (db app))")
    case (Inl e)
    with Some show ?thesis by (simp add: saveCustomName_def Let_def respond_def)
  next
    case (Inr ok)
    obtain existed rows1 where ok: "ok = (existed, rows1)" by (cases ok)
    have "\<exists>rows. saveCustomName t rq app =
      (respond 200 (Saved ''Custom service name saved successfully''),
       invalidatePorts (setNames app rows))"
      using Some Inr ok by (simp add: saveCustomName_def Let_def) blast
    then show ?thesis by blast
  qed
qed

lemma postCustomServiceNames_invalidates:
  assumes "status (fst (postCustomServiceNames t rq app)) = 200"
  shows "cacheGet (responseCache (snd (postCustomServiceNames t rq app))) portsCacheKey now = None"
proof (cases "validateCustomServiceNameInput rq")
  case None
  then have eq: "postCustomServiceNames t rq app = saveCustomName t rq app"
    by (simp add: postCustomServiceNames_def)
  from saveCustomName_shape [of t rq app] assms obtain rows where
    "saveCustomName t rq app =
      (respond 200 (Saved ''Custom service name saved successfully''),
       invalidatePorts (setNames app rows))"
    unfolding eq by auto
  then show ?thesis by (simp add: eq invalidatePorts_miss)
next
  case (Some r)
  with assms validateCustomServiceNameInput_status [OF Some] show ?thesis
    by (simp add: postCustomServiceNames_def)
qed

lemma removeCustomName_shape:
  "status (fst (removeCustomName rq app)) \<noteq> 200 \<or>
   (\<exists>rows. snd (removeCustomName rq app) = invalidatePorts (setNames app rows))"
proof (cases "rq_host_port rq")
  case None
  then show ?thesis by (simp add: removeCustomName_def Let_def respond_def)
next
  case (Some port)
  show ?thesis
    unfolding removeCustomName_def Let_def Some
    by (simp add: respond_def) blast
qed

lemma deleteCustomServiceNames_invalidates:
  assumes "status (fst (deleteCustomServiceNames rq app)) = 200"
  shows "cacheGet (responseCache (snd (deleteCustomServiceNames rq app))) portsCacheKey now = None"
proof (cases "validateCustomServiceNameDeleteInput rq")
  case None
  then have eq: "deleteCustomServiceNames rq app = removeCustomName rq app"
    by (simp add: deleteCustomServiceNames_def)
  from removeCustomName_shape [of rq app] assms obtain rows where
    "snd (removeCustomName rq app) = invalidatePorts (setNames app rows)"
    unfolding eq by auto
  then show ?thesis by (simp add: eq invalidatePorts_miss)
next
  case (Some r)
  with assms validateCustomServiceNameDeleteInput_status [OF Some] show ?thesis
    by (simp add: deleteCustomServiceNames_def)
qed

lemma validateNameOps_status: "validateNameOps i ops = Some r \<Longrightarrow> status r = 400"
proof (induction i ops rule: validateNameOps.induct)
  case (1 i)
  then show ?case by simp
next
  case (2 i op ops)
  have "status (indexError i m) = 400" for m by (simp add: indexError_def respond_def)
  with 2 show ?case
    by (auto split: if_splits)
qed

lemma batchCustomNames_invalidates:
  assumes "status (fst (batchCustomNames t sid ops app)) = 200"
  shows "cacheGet (responseCache (snd (batchCustomNames t sid ops app))) portsCacheKey now = None"
proof -
  from assms obtain os where os: "ops = Some os" "os \<noteq> []" "trim sid \<noteq> []"
    by (cases ops) (auto simp: batchCustomNames_def respond_def split: if_splits)
  with assms have v: "validateNameOps 0 os = None"
    by (cases "validateNameOps 0 os")
       (auto simp: batchCustomNames_def dest: validateNameOps_status)
  show ?thesis
  proof (cases "applyNameOps t (servers (db app)) sid os (custom_service_names (db app)) []")
    case (Inl e)
    with assms os v show ?thesis
      by (cases e) (simp add: batchCustomNames_def respond_def)
  next
    case (Inr ok)
    with os v show ?thesis
      by (cases ok) (simp add: batchCustomNames_def invalidatePorts_miss)
  qed
qed

lemma batchNotes_invalidates:
  assumes "status (fst (batchNotes t sid ops app)) = 200"
  shows "cacheGet (responseCache (snd (batchNotes t sid ops app))) portsCacheKey now = None"
proof -
  from assms obtain os where os: "ops = Some os" "sid \<noteq> []"
    by (cases ops) (auto simp: batchNotes_def respond_def split: if_splits)
  then show ?thesis
    by (simp add: batchNotes_def invalidatePorts_miss split: prod.split)
qed

text \<open>
  Claim C1 at its failing input. With the ports cache populated at time 1000 for 3000 ms,
  a note saved at time 1500 is answered with 200 and the cache entry
  \<open>endpoint:ports:local\<close> is still there: \<open>GET /api/ports\<close> at time 2000 serves the
  payload cached before the write. The same holds for \<open>POST /api/ignores\<close>. The handlers
  of the custom names and the two batch handlers delete the entry, as the lemmas above show.
\<close>

theorem note_and_ignore_keep_ports_cache:
  "cacheGet (responseCache warmApp) portsCacheKey 2000 = Some cachedPorts \<and>
   status (fst (postNotes 1500
      ((request ''local'' ''0.0.0.0'' 80)\<lparr>rq_note := Some ''reverse proxy''\<rparr>) warmApp)) = 200 \<and>
   map note_text (notes_tbl (db (snd (postNotes 1500
      ((request ''local'' ''0.0.0.0'' 80)\<lparr>rq_note := Some ''reverse proxy''\<rparr>) warmApp))))
     = [''reverse proxy''] \<and>
   cacheGet (responseCache (snd (postNotes 1500
      ((request ''local'' ''0.0.0.0'' 80)\<lparr>rq_note := Some ''reverse proxy''\<rparr>) warmApp)))
      portsCacheKey 2000 = Some cachedPorts \<and>
   fst (getPorts 2000 False False 3000 (Inr []) (Inr []) (snd (postNotes 1500
      ((request ''local'' ''0.0.0.0'' 80)\<lparr>rq_note := Some ''reverse proxy''\<rparr>) warmApp)))
     = respond 200 (Ports True cachedPorts) \<and>
   status (fst (postIgnores 1500
      ((request ''local'' ''0.0.0.0'' 80)\<lparr>rq_ignored := Some True\<rparr>) warmApp)) = 200 \<and>
   length (ignores (db (snd (postIgnores 1500
      ((request ''local'' ''0.0.0.0'' 80)\<lparr>rq_ignored := Some True\<rparr>) warmApp)))) = 1 \<and>
   cacheGet (responseCache (snd (postIgnores 1500
      ((request ''local'' ''0.0.0.0'' 80)\<lparr>rq_ignored := Some True\<rparr>) warmApp)))
      portsCacheKey 2000 = Some cachedPorts"
  by code_simp

section \<open>Verification: batch operations\<close>

text \<open>The note batch never leaves its loop early: with a server id and an operations
  array it answers 200, whatever the operations do.\<close>

lemma batchNotes_completes:
  "sid \<noteq> [] \<Longrightarrow> status (fst (batchNotes t sid (Some ops) app)) = 200"
  by (simp add: batchNotes_def respond_def split: prod.split)

text \<open>
  Claim C4 at its failing inputs. A custom-name batch for a server that is not in
  \<open>servers\<close> passes the validation loop; its first \<open>INSERT\<close> violates the foreign key, and
  the whole request ends with status 500 and no itemised outcome, the second operation
  never being run. The note batch records the same failure for the item and goes on; but
  a \<open>set\<close> with a blank note and an operation with an unknown action get no outcome at all,
  so that two operations yield an empty result list.
\<close>

theorem batch_failure_isolation_fails:
  "validateNameOps 0
     [(operation ''set'' ''0.0.0.0'' 80)\<lparr>op_custom_name := Some ''web''\<rparr>,
      operation ''delete'' ''0.0.0.0'' 81] = None \<and>
   fst (batchCustomNames 1500 ''ghost''
     (Some [(operation ''set'' ''0.0.0.0'' 80)\<lparr>op_custom_name := Some ''web''\<rparr>,
            operation ''delete'' ''0.0.0.0'' 81]) warmApp)
     = respond 500 (Failed ''Database operation failed''
         ''Unable to process batch custom service name operations'' None) \<and>
   fst (batchNotes 1500 ''ghost''
     (Some [(operation ''set'' ''0.0.0.0'' 80)\<lparr>op_note := Some ''web''\<rparr>,
            operation ''delete'' ''0.0.0.0'' 81]) warmApp)
     = respond 200 (Results [ItemFailed ''FOREIGN KEY constraint failed'',
                             NoteDeleted ''0.0.0.0'' 81 None False 0]) \<and>
   fst (batchNotes 1500 ''local''
     (Some [(operation ''set'' ''0.0.0.0'' 80)\<lparr>op_note := Some ''   ''\<rparr>,
            operation ''update'' ''0.0.0.0'' 81]) warmApp)
     = respond 200 (Results [])"
  by code_simp


section \<open>Verification: reachability probe\<close>
















section \<open>Verification: login\<close>

text \<open>
  Claim C10. With authentication enabled, a readable users table and a password that is
  not the active recovery key, a login naming an existing user with a wrong password and a
  login naming a user that does not exist are answered alike, with status 401 and the body
  \<open>Invalid credentials\<close>; \<open>bcrypt.compare\<close> is called once in each run, on the stored hash
  of the user in the first and on the fixed dummy hash in the second; neither run opens a
  session, and both leave the users and the recovery manager in the same state.
\<close>

theorem login_hides_user_existence:
  assumes "authEnabled env" and "users env = Some us"
    and "uname1 \<noteq> []" and "uname2 \<noteq> []" and "password \<noteq> []"
    and "\<not> fst (validateKey rm (clock env) password)"
    and "find (\<lambda>u. username u = trim uname1) us = Some user"
    and "\<not> bcryptCompare env password (password_hash user)"
    and "find (\<lambda>u. username u = trim uname2) us = None"
  shows "login_status (login env rm uname1 password) = 401 \<and>
         login_body (login env rm uname1 password) = AuthError ''Invalid credentials'' \<and>
         login_status (login env rm uname2 password) = 401 \<and>
         login_body (login env rm uname2 password) = AuthError ''Invalid credentials'' \<and>
         login_compared (login env rm uname1 password) = [(password, password_hash user)] \<and>
         login_compared (login env rm uname2 password) = [(password, dummyHash)] \<and>
         login_session (login env rm uname1 password) = None \<and>
         login_session (login env rm uname2 password) = None \<and>
         login_users (login env rm uname1 password) = login_users (login env rm uname2 password) \<and>
         login_recovery (login env rm uname1 password) = login_recovery (login env rm uname2 password)"
proof -
  obtain rm1 where v: "validateKey rm (clock env) password = (False, rm1)"
    using assms(6) by (cases "validateKey rm (clock env) password") auto
  have 1: "login env rm uname1 password =
            loginRun 401 (AuthError ''Invalid credentials'') rm1 (Some us) None
              [(password, password_hash user)]"
    using assms by (simp add: login_def v Let_def)
  have 2: "login env rm uname2 password =
            loginRun 401 (AuthError ''Invalid credentials'') rm1 (Some us) None
              [(password, dummyHash)]"
    using assms by (simp add: login_def v Let_def)
  show ?thesis by (simp add: 1 2 loginRun_def)
qed

theorem login_hides_user_existence_witness:
  "authEnabled loginEnv \<and> users loginEnv = Some [alice] \<and>
   \<not> fst (validateKey noRecovery (clock loginEnv) ''wrong'') \<and>
   find (\<lambda>u. username u = trim ''alice'') [alice] = Some alice \<and>
   \<not> bcryptCompare loginEnv ''wrong'' (password_hash alice) \<and>
   find (\<lambda>u. username u = trim ''bob'') [alice] = None \<and>
   login_status (login loginEnv noRecovery ''alice'' ''wrong'') = 401 \<and>
   login_status (login loginEnv noRecovery ''bob'' ''wrong'') = 401 \<and>
   login_body (login loginEnv noRecovery ''alice'' ''wrong'') =
     login_body (login loginEnv noRecovery ''bob'' ''wrong'') \<and>
   login_compared (login loginEnv noRecovery ''alice'' ''wrong'') =
     [(''wrong'', ''$2a$10$hashofalice'')] \<and>
   login_compared (login loginEnv noRecovery ''bob'' ''wrong'') = [(''wrong'', dummyHash)]"
proof -
  have a: "authEnabled loginEnv" and u: "users loginEnv = Some [alice]"
    by (simp_all add: loginEnv_def)
  have n: "''alice'' \<noteq> []" "''bob'' \<noteq> []" "''wrong'' \<noteq> []" by simp_all
  have k: "\<not> fst (validateKey noRecovery (clock loginEnv) ''wrong'')"
    by (simp add: validateKey_def noRecovery_def)
  have f1: "find (\<lambda>u. username u = trim ''alice'') [alice] = Some alice" by code_simp
  have b: "\<not> bcryptCompare loginEnv ''wrong'' (password_hash alice)"
    by (simp add: loginEnv_def)
  have f2: "find (\<lambda>u. username u = trim ''bob'') [alice] = None" by code_simp
  have h: "password_hash alice = ''$2a$10$hashofalice''" by (simp add: alice_def)
  show ?thesis
    using login_hides_user_existence [OF a u n k f1 b f2] a u k f1 b f2
    by (simp add: h)
qed

end
